theory Spec2Isabelle
  imports Main "HOL-Library.Char_ord" "HOL-Library.List_Lexorder" "HOL-Library.Product_Lexorder"
    "HOL-Library.Multiset" "HOL-Library.AList" "HOL-Library.Sublist"
begin

section \<open>Characters and strings as Python sees them\<close>

text \<open>
  Text is a list of characters; a character stands for a code point below 256.
  The classes below are the ones Python 3 uses for \<^verbatim>\<open>str.isspace\<close>, the
  regular-expression classes \<^verbatim>\<open>\s\<close> and \<^verbatim>\<open>\w\<close>, \<^verbatim>\<open>str.lower\<close> and
  \<^verbatim>\<open>str.splitlines\<close> on that range.
\<close>

definition code :: "char \<Rightarrow> nat" where
  "code c = of_char c"

definition is_space :: "char \<Rightarrow> bool" where
  "is_space c = ((9 \<le> code c \<and> code c \<le> 13) \<or> (28 \<le> code c \<and> code c \<le> 32)
                 \<or> code c = 133 \<or> code c = 160)"

definition is_ascii_alnum :: "char \<Rightarrow> bool" where
  "is_ascii_alnum c = ((48 \<le> code c \<and> code c \<le> 57) \<or> (65 \<le> code c \<and> code c \<le> 90)
                       \<or> (97 \<le> code c \<and> code c \<le> 122))"

definition is_word :: "char \<Rightarrow> bool" where
  "is_word c = (is_ascii_alnum c \<or> code c = 95
                \<or> code c \<in> {170, 178, 179, 181, 185, 186, 188, 189, 190}
                \<or> (192 \<le> code c \<and> code c \<le> 214) \<or> (216 \<le> code c \<and> code c \<le> 246)
                \<or> 248 \<le> code c)"

definition lower_char :: "char \<Rightarrow> char" where
  "lower_char c = (if (65 \<le> code c \<and> code c \<le> 90) \<or> (192 \<le> code c \<and> code c \<le> 214)
                      \<or> (216 \<le> code c \<and> code c \<le> 222)
                   then char_of (code c + 32) else c)"

definition lower :: "string \<Rightarrow> string" where
  "lower s = map lower_char s"

definition startswith :: "string \<Rightarrow> string \<Rightarrow> bool" where
  "startswith s pre = (take (length pre) s = pre)"

definition nl :: string where
  "nl = [CHR 0x0A]"

definition strip_chars :: "(char \<Rightarrow> bool) \<Rightarrow> string \<Rightarrow> string" where
  "strip_chars f s = rev (dropWhile f (rev (dropWhile f s)))"

definition strip :: "string \<Rightarrow> string" where
  "strip s = strip_chars is_space s"

fun join :: "string \<Rightarrow> string list \<Rightarrow> string" where
  "join sep [] = []"
| "join sep [x] = x"
| "join sep (x # y # ys) = x @ sep @ join sep (y # ys)"

text \<open>
  \<^verbatim>\<open>str.splitlines\<close>: a line ends at a line boundary (a carriage return followed by a
  line feed is one boundary); the boundaries are dropped, and text that ends with one has
  no empty last line.
\<close>

definition is_linebreak :: "char \<Rightarrow> bool" where
  "is_linebreak c = (code c \<in> {10, 11, 12, 13, 28, 29, 30, 133})"

fun splitlines_from :: "string \<Rightarrow> string \<Rightarrow> string list" where
  "splitlines_from cur [] = (if cur = [] then [] else [cur])"
| "splitlines_from cur (c # cs) =
     (if is_linebreak c then
        (case cs of
           [] \<Rightarrow> [cur]
         | d # ds \<Rightarrow> if code c = 13 \<and> code d = 10 then cur # splitlines_from [] ds
                    else cur # splitlines_from [] (d # ds))
      else splitlines_from (cur @ [c]) cs)"

definition splitlines :: "string \<Rightarrow> string list" where
  "splitlines s = splitlines_from [] s"

fun split_from :: "char \<Rightarrow> string \<Rightarrow> string \<Rightarrow> string list" where
  "split_from sep cur [] = [cur]"
| "split_from sep cur (c # cs) =
     (if c = sep then cur # split_from sep [] cs else split_from sep (cur @ [c]) cs)"

definition split :: "char \<Rightarrow> string \<Rightarrow> string list" where
  "split sep s = split_from sep [] s"

fun digit :: "nat \<Rightarrow> char" where
  "digit n = char_of (48 + n)"

fun str_nat :: "nat \<Rightarrow> string" where
  "str_nat n = (if n < 10 then [digit n] else str_nat (n div 10) @ [digit (n mod 10)])"

section \<open>Regular expressions\<close>

text \<open>
  The patterns of the source are sequences of character classes, each taken once or under
  a greedy or lazy repetition, with the anchor \<^verbatim>\<open>^\<close> and one capture group. The
  matcher below is a backtracking matcher in the order of Python's \<^verbatim>\<open>re\<close>: a greedy
  repetition first takes one more character and falls back to the rest of the pattern, a
  lazy one first tries the rest of the pattern. It returns the text of group 1 and the
  input left after the match. \<^verbatim>\<open>prev\<close> is the character before the current position
  (none at the start of the string): \<^verbatim>\<open>^\<close> matches at the start, and under
  \<^verbatim>\<open>re.M\<close> after a line feed.
\<close>

datatype quant = One | Star | Plus | LazyStar | LazyPlus

datatype item = Bol | Open | Close | Cls "char \<Rightarrow> bool" quant

type_synonym rx_result = "(string option \<times> string) option"

fun rx :: "bool \<Rightarrow> item list \<Rightarrow> char option \<Rightarrow> string option \<Rightarrow> string option \<Rightarrow> string
           \<Rightarrow> rx_result" where
  "rx m [] prev mark cap s = Some (cap, s)"
| "rx m (Bol # ps) prev mark cap s =
     (if prev = None \<or> (m \<and> prev = Some (CHR 0x0A)) then rx m ps prev mark cap s else None)"
| "rx m (Open # ps) prev mark cap s = rx m ps prev (Some s) cap s"
| "rx m (Close # ps) prev mark cap s =
     rx m ps prev mark
       (case mark of Some s0 \<Rightarrow> Some (take (length s0 - length s) s0) | None \<Rightarrow> cap) s"
| "rx m (Cls c One # ps) prev mark cap [] = None"
| "rx m (Cls c One # ps) prev mark cap (x # xs) =
     (if c x then rx m ps (Some x) mark cap xs else None)"
| "rx m (Cls c Plus # ps) prev mark cap [] = None"
| "rx m (Cls c Plus # ps) prev mark cap (x # xs) =
     (if c x then rx m (Cls c Star # ps) (Some x) mark cap xs else None)"
| "rx m (Cls c LazyPlus # ps) prev mark cap [] = None"
| "rx m (Cls c LazyPlus # ps) prev mark cap (x # xs) =
     (if c x then rx m (Cls c LazyStar # ps) (Some x) mark cap xs else None)"
| "rx m (Cls c Star # ps) prev mark cap [] = rx m ps prev mark cap []"
| "rx m (Cls c Star # ps) prev mark cap (x # xs) =
     (if c x then
        (case rx m (Cls c Star # ps) (Some x) mark cap xs of
           Some r \<Rightarrow> Some r
         | None \<Rightarrow> rx m ps prev mark cap (x # xs))
      else rx m ps prev mark cap (x # xs))"
| "rx m (Cls c LazyStar # ps) prev mark cap [] = rx m ps prev mark cap []"
| "rx m (Cls c LazyStar # ps) prev mark cap (x # xs) =
     (case rx m ps prev mark cap (x # xs) of
        Some r \<Rightarrow> Some r
      | None \<Rightarrow> if c x then rx m (Cls c LazyStar # ps) (Some x) mark cap xs else None)"

text \<open>\<^verbatim>\<open>pattern.match(s)\<close>: a match at the start of the string.\<close>

definition re_match :: "item list \<Rightarrow> string \<Rightarrow> rx_result" where
  "re_match pat s = rx False pat None None None s"

text \<open>\<^verbatim>\<open>pattern.search(s)\<close>: the match at the first position that has one.\<close>

fun re_search_from :: "item list \<Rightarrow> char option \<Rightarrow> string \<Rightarrow> rx_result" where
  "re_search_from pat prev s =
     (case rx False pat prev None None s of
        Some r \<Rightarrow> Some r
      | None \<Rightarrow> (case s of [] \<Rightarrow> None | x # xs \<Rightarrow> re_search_from pat (Some x) xs))"

definition re_search :: "item list \<Rightarrow> string \<Rightarrow> rx_result" where
  "re_search pat s = re_search_from pat None s"

text \<open>
  \<^verbatim>\<open>re.findall(pattern, s, re.M)\<close> for a pattern whose result is its first group: the
  matches from left to right, each search starting where the last match ended. A match
  that consumed nothing is recorded and the search moves on by one character.
\<close>

fun findall_from :: "item list \<Rightarrow> char option \<Rightarrow> string \<Rightarrow> string list" where
  "findall_from pat prev s =
     (case rx True pat prev None None s of
        Some (cap, rest) \<Rightarrow>
          (let g = (case cap of Some t \<Rightarrow> t | None \<Rightarrow> []) in
           if length rest < length s
           then g # findall_from pat (Some (s ! (length s - length rest - 1))) rest
           else g # (case s of [] \<Rightarrow> [] | x # xs \<Rightarrow> findall_from pat (Some x) xs))
      | None \<Rightarrow> (case s of [] \<Rightarrow> [] | x # xs \<Rightarrow> findall_from pat (Some x) xs))"

definition findall_m :: "item list \<Rightarrow> string \<Rightarrow> string list" where
  "findall_m pat s = findall_from pat None s"

definition lit :: "string \<Rightarrow> item list" where
  "lit s = map (\<lambda>x. Cls (\<lambda>c. c = x) One) s"

definition is_quote :: "char \<Rightarrow> bool" where
  "is_quote c = (c = CHR 0x22 \<or> c = CHR 0x27)"

definition not_newline :: "char \<Rightarrow> bool" where
  "not_newline c = (c \<noteq> CHR 0x0A)"

section \<open>Paths\<close>

text \<open>
  A path is the list of its parts relative to the scanned root, as
  \<^verbatim>\<open>Path.relative_to(root).parts\<close> gives them. \<^verbatim>\<open>name\<close>, \<^verbatim>\<open>suffix\<close> and
  \<^verbatim>\<open>stem\<close> follow pathlib: the suffix starts at the last dot of the name, unless that dot
  is the first or the last character of the name.
\<close>

type_synonym path = "string list"

definition name :: "path \<Rightarrow> string" where
  "name p = (if p = [] then [] else last p)"

fun rfind :: "char \<Rightarrow> string \<Rightarrow> nat option" where
  "rfind c [] = None"
| "rfind c (x # xs) =
     (case rfind c xs of Some i \<Rightarrow> Some (Suc i) | None \<Rightarrow> if x = c then Some 0 else None)"

definition suffix_of :: "string \<Rightarrow> string" where
  "suffix_of n = (case rfind (CHR ''.'') n of
                    Some i \<Rightarrow> if 0 < i \<and> i + 1 < length n then drop i n else []
                  | None \<Rightarrow> [])"

definition stem_of :: "string \<Rightarrow> string" where
  "stem_of n = (case rfind (CHR ''.'') n of
                  Some i \<Rightarrow> if 0 < i \<and> i + 1 < length n then take i n else n
                | None \<Rightarrow> n)"

definition suffix :: "path \<Rightarrow> string" where
  "suffix p = suffix_of (name p)"

definition stem :: "path \<Rightarrow> string" where
  "stem p = stem_of (name p)"

section \<open>gen\_docs.py: constants\<close>

definition IGNORES :: "string set" where
  "IGNORES = {''.git'', ''.hg'', ''.svn'', ''.idea'', ''.vscode'', ''.venv'', ''venv'',
              ''__pycache__'', ''node_modules'', ''dist'', ''build'', ''.pytest_cache'',
              ''.mypy_cache'', ''.ruff_cache'', ''.tox'', ''.cache'', ''target'', ''out'', ''bin''}"

definition LANG_EXTS :: "(string \<times> string list) list" where
  "LANG_EXTS =
    [(''Python'', [''.py'']),
     (''JavaScript/TypeScript'', [''.js'', ''.mjs'', ''.cjs'', ''.jsx'', ''.ts'', ''.tsx'']),
     (''Java'', [''.java'']),
     (''Go'', [''.go'']),
     (''Rust'', [''.rs'']),
     (''C/C++'', [''.c'', ''.h'', ''.cc'', ''.cpp'', ''.hpp'', ''.cxx'', ''.hxx''])]"

definition README_FILES :: "string list" where
  "README_FILES = [''README.md'', ''Readme.md'', ''readme.md'', ''README'', ''README.rst'']"

section \<open>gen\_docs.py: walk\_files and find\_by\_lang\<close>

text \<open>
  A directory as \<^verbatim>\<open>os.walk\<close> lists it: the names of its files and its subdirectories,
  each list in the order the operating system returns them. \<^verbatim>\<open>walk_files\<close> yields the
  files of a directory, then walks the subdirectories that survive the in-place filter of
  \<^verbatim>\<open>dirs\<close>; the root itself is never filtered.
\<close>

datatype tree = Tree (tfiles: "string list") (tdirs: "(string \<times> tree) list")

definition keep_dir :: "string \<Rightarrow> bool" where
  "keep_dir x = (x \<notin> IGNORES \<and> \<not> startswith x ''.'')"

fun walk_files :: "tree \<Rightarrow> path list" and walk_dirs :: "(string \<times> tree) list \<Rightarrow> path list" where
  "walk_files (Tree fs ds) = map (\<lambda>f. [f]) fs @ walk_dirs ds"
| "walk_dirs [] = []"
| "walk_dirs ((d, t) # rest) =
     (if keep_dir d then map ((#) d) (walk_files t) else []) @ walk_dirs rest"

text \<open>
  The buckets are a dictionary keyed by language name, in insertion order. The inner loop
  of \<^verbatim>\<open>find_by_lang\<close> appends the path to the bucket of the first table entry whose
  extension tuple holds the lower-cased suffix, and breaks.
\<close>

type_synonym buckets = "(string \<times> path list) list"

definition append_to :: "string \<Rightarrow> path \<Rightarrow> buckets \<Rightarrow> buckets" where
  "append_to lang p b = map (\<lambda>(k, v). if k = lang then (k, v @ [p]) else (k, v)) b"

fun place :: "(string \<times> string list) list \<Rightarrow> path \<Rightarrow> buckets \<Rightarrow> buckets" where
  "place [] p b = b"
| "place ((lang, exts) # rest) p b =
     (if lower (suffix p) \<in> set exts then append_to lang p b else place rest p b)"

definition empty_buckets :: buckets where
  "empty_buckets = map (\<lambda>(k, exts). (k, [])) LANG_EXTS"

definition find_by_lang_files :: "path list \<Rightarrow> buckets" where
  "find_by_lang_files ps =
     map (\<lambda>(k, v). (k, sort v)) (foldl (\<lambda>b p. place LANG_EXTS p b) empty_buckets ps)"

definition find_by_lang :: "tree \<Rightarrow> buckets" where
  "find_by_lang root = find_by_lang_files (walk_files root)"

text \<open>
  The classification the table stands for: the language of the first entry of a table whose
  extension tuple holds the lower-cased suffix of the path, if there is one.
\<close>

definition classify_in :: "(string \<times> string list) list \<Rightarrow> path \<Rightarrow> string option" where
  "classify_in tab p = map_option fst (find (\<lambda>(lang, exts). lower (suffix p) \<in> set exts) tab)"

definition classify :: "path \<Rightarrow> string option" where
  "classify p = classify_in LANG_EXTS p"

section \<open>Files and their contents\<close>

text \<open>
  What a read of a path finds: nothing, something that cannot be read as a file (no
  permission, a directory), or text. The bytes are decoded with \<^verbatim>\<open>errors="ignore"\<close>,
  so decoding never fails and \<^verbatim>\<open>Text\<close> holds the decoded text. Python's exceptions
  are values of \<^verbatim>\<open>error\<close>.
\<close>

datatype error = OSError | KeyError | ReError | ImportError | ValueError | RuntimeError

datatype entry = Missing | Unreadable | Text string

type_synonym reader = "path \<Rightarrow> entry"

section \<open>gen\_docs.py: read\_readme\<close>

definition hash_re :: "item list" where
  "hash_re = [Bol, Cls (\<lambda>c. c = CHR ''#'') Plus, Cls is_space Star]"

text \<open>\<^verbatim>\<open>re.sub(r"^#+\s*", "", clean)\<close>: the pattern can only match at the start.\<close>

definition strip_heading :: "string \<Rightarrow> string" where
  "strip_heading clean = (case re_match hash_re clean of Some (g, rest) \<Rightarrow> rest | None \<Rightarrow> clean)"

fun first_summary :: "string list \<Rightarrow> string option" where
  "first_summary [] = None"
| "first_summary (line # ls) =
     (let clean = strip line in
      if clean \<noteq> [] then Some (strip_heading clean) else first_summary ls)"

fun read_readme_in :: "string list \<Rightarrow> reader \<Rightarrow> error + string option" where
  "read_readme_in [] rd = Inr None"
| "read_readme_in (n # ns) rd =
     (case rd [n] of
        Missing \<Rightarrow> read_readme_in ns rd
      | Unreadable \<Rightarrow> Inl OSError
      | Text txt \<Rightarrow>
          (case first_summary (splitlines txt) of
             Some l \<Rightarrow> Inr (Some l)
           | None \<Rightarrow> read_readme_in ns rd))"

definition read_readme :: "reader \<Rightarrow> error + string option" where
  "read_readme rd = read_readme_in README_FILES rd"

text \<open>What one candidate contributes: the cleaned first non-blank line of its text, if it
  is a readable file that has one.\<close>

definition summary_of :: "entry \<Rightarrow> string option" where
  "summary_of e = (case e of Text body \<Rightarrow> first_summary (splitlines body) | _ \<Rightarrow> None)"

section \<open>gen\_docs.py: slug\_for\_mermaid and the import edges\<close>

text \<open>
  \<^verbatim>\<open>re.sub(r"[^A-Za-z0-9]+", "_", rel)\<close>: every maximal run of characters other than
  ASCII letters and digits becomes one underscore; \<^verbatim>\<open>in_run\<close> says that the run has
  already been replaced.
\<close>

fun squash :: "bool \<Rightarrow> string \<Rightarrow> string" where
  "squash in_run [] = []"
| "squash in_run (c # cs) =
     (if is_ascii_alnum c then c # squash False cs
      else if in_run then squash True cs
      else CHR ''_'' # squash True cs)"

definition slug_for_mermaid :: "path \<Rightarrow> string" where
  "slug_for_mermaid p = strip_chars (\<lambda>c. c = CHR ''_'') (squash False (join ''/'' p))"

definition is_modchar :: "char \<Rightarrow> bool" where
  "is_modchar c = (is_ascii_alnum c \<or> c = CHR ''_'' \<or> c = CHR ''.'')"

definition imp_re1 :: "item list" where
  "imp_re1 = [Bol, Cls is_space Star] @ lit ''import''
             @ [Cls is_space Plus, Open, Cls is_modchar Plus, Close]"

definition imp_re2 :: "item list" where
  "imp_re2 = [Bol, Cls is_space Star] @ lit ''from''
             @ [Cls is_space Plus, Open, Cls is_modchar Plus, Close, Cls is_space Plus]
             @ lit ''import'' @ [Cls is_space Plus]"

definition group1 :: "rx_result \<Rightarrow> string option" where
  "group1 r = (case r of Some (Some g, rest) \<Rightarrow> Some g | _ \<Rightarrow> None)"

text \<open>
  \<^verbatim>\<open>imp_re1.match(line) or imp_re2.match(line)\<close>, and the head of the dotted name:
  \<^verbatim>\<open>m.group(1).split(".")[0]\<close>.
\<close>

definition py_import_target :: "string \<Rightarrow> string option" where
  "py_import_target line =
     (case (case re_match imp_re1 line of Some r \<Rightarrow> Some r | None \<Rightarrow> re_match imp_re2 line) of
        Some (Some g, rest) \<Rightarrow> Some (case split (CHR ''.'') g of [] \<Rightarrow> [] | h # t \<Rightarrow> h)
      | _ \<Rightarrow> None)"

text \<open>A dictionary built by a comprehension: a later file with the same stem replaces an
  earlier one.\<close>

definition by_stem :: "path list \<Rightarrow> string \<rightharpoonup> path" where
  "by_stem files = map_of (rev (map (\<lambda>p. (stem p, p)) files))"

text \<open>
  The end of both line loops: if the key names a file of the table and the slug of that
  file differs from the source's, the pair joins the set of edges.
\<close>

definition link :: "(string \<rightharpoonup> path) \<Rightarrow> string \<Rightarrow> string \<Rightarrow> (string \<times> string) set
                    \<Rightarrow> (string \<times> string) set" where
  "link table src key edges =
     (case table key of
        None \<Rightarrow> edges
      | Some q \<Rightarrow> (let dst = slug_for_mermaid q in
                   if src \<noteq> dst then insert (src, dst) edges else edges))"

definition py_line :: "(string \<rightharpoonup> path) \<Rightarrow> string \<Rightarrow> (string \<times> string) set \<Rightarrow> string
                       \<Rightarrow> (string \<times> string) set" where
  "py_line modules src edges line =
     (case py_import_target line of None \<Rightarrow> edges | Some module \<Rightarrow> link modules src module edges)"

definition py_file :: "reader \<Rightarrow> (string \<rightharpoonup> path) \<Rightarrow> (string \<times> string) set \<Rightarrow> path
                       \<Rightarrow> (string \<times> string) set" where
  "py_file rd modules edges p =
     (case rd p of
        Text body \<Rightarrow> foldl (py_line modules (slug_for_mermaid p)) edges (splitlines body)
      | _ \<Rightarrow> edges)"

definition py_import_edges :: "reader \<Rightarrow> path list \<Rightarrow> (string \<times> string) list" where
  "py_import_edges rd files =
     sorted_list_of_set (foldl (py_file rd (by_stem files)) {} files)"

definition require_re :: "item list" where
  "require_re = lit ''require('' @ [Cls is_quote One, Open, Cls not_newline LazyPlus, Close,
                                     Cls is_quote One] @ lit '')''"

definition import_re :: "item list" where
  "import_re = [Bol, Cls is_space Star] @ lit ''import''
               @ [Cls is_space Plus, Cls not_newline LazyStar] @ lit ''from''
               @ [Cls is_space Plus, Cls is_quote One, Open, Cls not_newline LazyPlus, Close,
                  Cls is_quote One]"

text \<open>
  \<^verbatim>\<open>Path(target).stem\<close>: pathlib drops the empty parts and the parts \<^verbatim>\<open>.\<close> of the
  target; the name is the last part left, empty if none is.
\<close>

definition path_of :: "string \<Rightarrow> path" where
  "path_of target = filter (\<lambda>part. part \<noteq> [] \<and> part \<noteq> ''.'') (split (CHR ''/'') target)"

definition js_import_target :: "string \<Rightarrow> string option" where
  "js_import_target line =
     (case (case re_match import_re line of Some r \<Rightarrow> Some r | None \<Rightarrow> re_search require_re line) of
        Some (Some target, rest) \<Rightarrow> Some (stem (path_of target))
      | _ \<Rightarrow> None)"

definition js_line :: "(string \<rightharpoonup> path) \<Rightarrow> string \<Rightarrow> (string \<times> string) set \<Rightarrow> string
                       \<Rightarrow> (string \<times> string) set" where
  "js_line basenames src edges line =
     (case js_import_target line of None \<Rightarrow> edges | Some base \<Rightarrow> link basenames src base edges)"

definition js_file :: "reader \<Rightarrow> (string \<rightharpoonup> path) \<Rightarrow> (string \<times> string) set \<Rightarrow> path
                       \<Rightarrow> (string \<times> string) set" where
  "js_file rd basenames edges p =
     (case rd p of
        Text body \<Rightarrow> foldl (js_line basenames (slug_for_mermaid p)) edges (splitlines body)
      | _ \<Rightarrow> edges)"

definition js_import_edges :: "reader \<Rightarrow> path list \<Rightarrow> (string \<times> string) list" where
  "js_import_edges rd files =
     sorted_list_of_set (foldl (js_file rd (by_stem files)) {} files)"

section \<open>gen\_docs.py: mermaid\_graph and write\_markdown\<close>

definition mermaid_graph :: "(string \<times> string) list \<Rightarrow> string \<Rightarrow> string" where
  "mermaid_graph edges title =
     (if edges = [] then
        ''```mermaid'' @ nl @ ''graph LR'' @ nl @ ''%% No edges detected for '' @ title @ nl
        @ ''```'' @ nl
      else join nl ([''```mermaid'', ''graph LR'']
                    @ map (\<lambda>(a, b). ''  '' @ a @ '' --> '' @ b) edges
                    @ [''```'', []]))"

text \<open>
  The dash of the title is U+2014, beyond the characters of the model; the title holds
  the three bytes of its UTF-8 encoding, as the written file does.
\<close>

definition title_line :: string where
  "title_line = ''# Codebase Genius '' @ [CHR 0xE2, CHR 0x80, CHR 0x94] @ '' Docs'' @ nl"

definition root_line :: "string \<Rightarrow> string" where
  "root_line root = ''Scanned root: `'' @ root @ ''`'' @ nl"

definition summary_heading :: string where
  "summary_heading = ''## Summary'' @ nl"

definition count_line :: "string \<times> path list \<Rightarrow> string" where
  "count_line = (\<lambda>(lang, files). ''- '' @ lang @ '': '' @ str_nat (length files))"

definition readme_section :: "string option \<Rightarrow> string list" where
  "readme_section readme_line =
     (case readme_line of
        None \<Rightarrow> []
      | Some l \<Rightarrow> if l \<noteq> [] then [''## README summary (first non-empty line)'' @ nl,
                                     ''> '' @ l @ nl]
                  else [])"

definition py_heading :: string where
  "py_heading = ''## Python import graph (Mermaid)'' @ nl"

definition js_heading :: string where
  "js_heading = ''## JS/TS import graph (Mermaid)'' @ nl"

definition graph_section :: "string \<Rightarrow> string \<Rightarrow> (string \<times> string) list \<Rightarrow> string list" where
  "graph_section heading title edges =
     (if edges \<noteq> [] then [heading, mermaid_graph edges title] else [])"

definition file_line :: "path \<Rightarrow> string" where
  "file_line p = ''- `'' @ join ''/'' p @ ''`''"

definition files_section :: "string \<times> path list \<Rightarrow> string list" where
  "files_section = (\<lambda>(lang, files).
     [''## '' @ lang @ '' files'']
     @ (if files = [] then [''_None_''] else map file_line files)
     @ [[]])"

text \<open>
  The lines \<^verbatim>\<open>write_markdown\<close> collects, for the absolute path \<^verbatim>\<open>root.resolve()\<close>
  of the root. A language of the table that is no key of \<^verbatim>\<open>buckets\<close> raises
  \<^verbatim>\<open>KeyError\<close> in the summary loop, before anything is written.
\<close>

definition write_markdown_lines ::
  "string \<Rightarrow> buckets \<Rightarrow> string option \<Rightarrow> (string \<times> string) list \<Rightarrow> (string \<times> string) list
   \<Rightarrow> error + string list" where
  "write_markdown_lines root buckets readme_line py_edges js_edges =
     (case those (map (map_of buckets) (map fst LANG_EXTS)) of
        None \<Rightarrow> Inl KeyError
      | Some fl \<Rightarrow>
          Inr ([title_line, root_line root, summary_heading]
               @ map count_line (zip (map fst LANG_EXTS) fl)
               @ [[]]
               @ readme_section readme_line
               @ graph_section py_heading ''Python'' py_edges
               @ graph_section js_heading ''JS/TS'' js_edges
               @ concat (map files_section (zip (map fst LANG_EXTS) fl))))"

section \<open>gen\_docs.py: main, up to the write\<close>

text \<open>
  The scan of \<^verbatim>\<open>main\<close>: the buckets, the README line, the edges of the two families
  that have an extractor (computed only for a bucket that is not empty), and the lines of
  the artifact. An unreadable README raises out of \<^verbatim>\<open>main\<close>.
\<close>

definition gen_docs_lines :: "string \<Rightarrow> tree \<Rightarrow> reader \<Rightarrow> error + string list" where
  "gen_docs_lines root t rd =
     (let buckets = find_by_lang t in
      case read_readme rd of
        Inl e \<Rightarrow> Inl e
      | Inr readme_line \<Rightarrow>
          (case map_of buckets ''Python'' of
             None \<Rightarrow> Inl KeyError
           | Some py \<Rightarrow>
               (case map_of buckets ''JavaScript/TypeScript'' of
                  None \<Rightarrow> Inl KeyError
                | Some js \<Rightarrow>
                    write_markdown_lines root buckets readme_line
                      (if py \<noteq> [] then py_import_edges rd py else [])
                      (if js \<noteq> [] then js_import_edges rd js else []))))"

definition gen_docs_text :: "string \<Rightarrow> tree \<Rightarrow> reader \<Rightarrow> error + string" where
  "gen_docs_text root t rd =
     (case gen_docs_lines root t rd of Inl e \<Rightarrow> Inl e | Inr ls \<Rightarrow> Inr (join nl ls))"

text \<open>
  The shape of the artifact for a root without source files: a count of zero and a
  section marked \<^verbatim>\<open>_None_\<close> for every language of the table.
\<close>

definition lang_names :: "string list" where
  "lang_names = map fst LANG_EXTS"

definition zero_line :: "string \<Rightarrow> string" where
  "zero_line lang = ''- '' @ lang @ '': 0''"

definition none_section :: "string \<Rightarrow> string list" where
  "none_section lang = [''## '' @ lang @ '' files'', ''_None_'', []]"

section \<open>py/parser.py: build\_ccg\<close>

definition ident_start :: "char \<Rightarrow> bool" where
  "ident_start c = ((65 \<le> code c \<and> code c \<le> 90) \<or> (97 \<le> code c \<and> code c \<le> 122) \<or> c = CHR ''_'')"

definition def_re :: "item list" where
  "def_re = [Bol, Cls is_space Star] @ lit ''def''
            @ [Cls is_space Plus, Open, Cls ident_start One, Cls is_word Star, Close,
               Cls is_space Star] @ lit ''(''"

text \<open>The second group of the class pattern, an opening parenthesis or a colon, is one
  character; \<^verbatim>\<open>build_ccg\<close> drops what it captures.\<close>

definition class_re :: "item list" where
  "class_re = [Bol, Cls is_space Star] @ lit ''class''
              @ [Cls is_space Plus, Open, Cls ident_start One, Cls is_word Star, Close,
                 Cls is_space Star, Cls (\<lambda>c. c = CHR ''('' \<or> c = CHR '':'') One]"

text \<open>
  The graph is a \<^verbatim>\<open>networkx.DiGraph\<close>: its nodes and its edges are dictionaries in
  insertion order, from a node to its attributes \<^verbatim>\<open>(kind, file)\<close> and from a pair of
  nodes to the attributes \<^verbatim>\<open>(type, file)\<close>. Adding a node or an edge that is there
  replaces its attributes.
\<close>

record ccg =
  g_nodes :: "(string \<times> string \<times> string) list"
  g_edges :: "((string \<times> string) \<times> string \<times> string) list"

record meta =
  m_files_analyzed :: nat
  m_functions :: nat
  m_classes :: nat

definition add_func :: "string \<Rightarrow> ccg \<times> meta \<Rightarrow> string \<Rightarrow> ccg \<times> meta" where
  "add_func file = (\<lambda>(g, m) f.
     (g\<lparr>g_nodes := AList.update (''func::'' @ f) (''func'', file) (g_nodes g)\<rparr>,
      m\<lparr>m_functions := m_functions m + 1\<rparr>))"

definition add_class :: "string \<Rightarrow> ccg \<times> meta \<Rightarrow> string \<Rightarrow> ccg \<times> meta" where
  "add_class file = (\<lambda>(g, m) c.
     (g\<lparr>g_nodes := AList.update (''class::'' @ c) (''class'', file) (g_nodes g)\<rparr>,
      m\<lparr>m_classes := m_classes m + 1\<rparr>))"

definition add_call :: "string \<Rightarrow> string \<Rightarrow> string \<Rightarrow> ccg \<Rightarrow> ccg" where
  "add_call file caller callee g =
     g\<lparr>g_edges := AList.update (''func::'' @ caller, ''func::'' @ callee) (''calls'', file)
                     (g_edges g)\<rparr>"

text \<open>
  The call test is \<^verbatim>\<open>re.search(rf'\\b{callee}\\s*\\(', text)\<close>. The literal is a raw
  string, so each doubled backslash reaches the pattern compiler as an escaped backslash,
  and the parenthesis after the last one opens a group that nothing closes: compiling the
  pattern raises \<^verbatim>\<open>re.error\<close> for every function name, whenever the test is
  evaluated. The loops are written over any call test, and \<^verbatim>\<open>build_ccg\<close> is their
  instance at this one.
\<close>

type_synonym call_test = "string \<Rightarrow> string \<Rightarrow> error + bool"

definition call_search :: call_test where
  "call_search callee body = Inl ReError"

fun callee_loop :: "call_test \<Rightarrow> string \<Rightarrow> string \<Rightarrow> string \<Rightarrow> string list \<Rightarrow> ccg \<Rightarrow> error + ccg" where
  "callee_loop search file body caller [] g = Inr g"
| "callee_loop search file body caller (callee # rest) g =
     (if caller \<noteq> callee then
        (case search callee body of
           Inl e \<Rightarrow> Inl e
         | Inr found \<Rightarrow>
             callee_loop search file body caller rest
               (if found then add_call file caller callee g else g))
      else callee_loop search file body caller rest g)"

fun caller_loop :: "call_test \<Rightarrow> string \<Rightarrow> string \<Rightarrow> string list \<Rightarrow> string list \<Rightarrow> ccg \<Rightarrow> error + ccg" where
  "caller_loop search file body funcs [] g = Inr g"
| "caller_loop search file body funcs (caller # rest) g =
     (case callee_loop search file body caller funcs g of
        Inl e \<Rightarrow> Inl e
      | Inr g' \<Rightarrow> caller_loop search file body funcs rest g')"

text \<open>
  One turn of the loop over the files that \<^verbatim>\<open>rglob("*.py")\<close> yields; a file that cannot
  be read raises. The tree-sitter parse has no use in the result and is taken to succeed,
  as is the set-up of the parser before the loop.
\<close>

definition ccg_file :: "call_test \<Rightarrow> reader \<Rightarrow> ccg \<times> meta \<Rightarrow> path \<Rightarrow> error + ccg \<times> meta" where
  "ccg_file search rd = (\<lambda>(g, m) p.
     (case rd p of
        Text body \<Rightarrow>
          (let file = join ''/'' p;
               m1 = m\<lparr>m_files_analyzed := m_files_analyzed m + 1\<rparr>;
               funcs = findall_m def_re body;
               clss = findall_m class_re body;
               (g2, m2) = foldl (add_class file) (foldl (add_func file) (g, m1) funcs) clss
           in case caller_loop search file body funcs funcs g2 of
                Inl e \<Rightarrow> Inl e
              | Inr g3 \<Rightarrow> Inr (g3, m2))
      | _ \<Rightarrow> Inl OSError))"

fun ccg_files :: "call_test \<Rightarrow> reader \<Rightarrow> ccg \<times> meta \<Rightarrow> path list \<Rightarrow> error + ccg \<times> meta" where
  "ccg_files search rd gm [] = Inr gm"
| "ccg_files search rd gm (p # ps) =
     (case ccg_file search rd gm p of
        Inl e \<Rightarrow> Inl e
      | Inr gm' \<Rightarrow> ccg_files search rd gm' ps)"

definition build_ccg_with :: "call_test \<Rightarrow> reader \<Rightarrow> path list \<Rightarrow> error + ccg \<times> meta" where
  "build_ccg_with search rd ps =
     ccg_files search rd
       (\<lparr>g_nodes = [], g_edges = []\<rparr>, \<lparr>m_files_analyzed = 0, m_functions = 0, m_classes = 0\<rparr>) ps"

definition build_ccg :: "reader \<Rightarrow> path list \<Rightarrow> error + ccg \<times> meta" where
  "build_ccg rd ps = build_ccg_with call_search rd ps"

section \<open>Writing files\<close>

text \<open>
  The files on disk, by path. A write can go wrong: the open fails and the file is left
  as it was, or the write fails after some characters, and the file, truncated by the
  open, holds those. Creating the parent directory and renaming can fail as well.
\<close>

type_synonym store = "string \<rightharpoonup> string"

datatype fault = NoFault | OpenFails | WriteFails nat

record faults =
  mkdir_fails :: bool
  write_fault :: fault
  replace_fails :: bool

text \<open>\<^verbatim>\<open>Path.write_text\<close>: open for writing, which truncates, then write.\<close>

definition path_write_text :: "fault \<Rightarrow> string \<Rightarrow> string \<Rightarrow> store \<Rightarrow> error option \<times> store" where
  "path_write_text f p data st =
     (case f of
        NoFault \<Rightarrow> (None, st(p \<mapsto> data))
      | OpenFails \<Rightarrow> (Some OSError, st)
      | WriteFails n \<Rightarrow> (Some OSError, st(p \<mapsto> take n data)))"

text \<open>The last two statements of \<^verbatim>\<open>write_markdown\<close>: the parent directory, then the
  text, written to the output path itself.\<close>

definition write_artifact :: "faults \<Rightarrow> string \<Rightarrow> string list \<Rightarrow> store \<Rightarrow> error option \<times> store" where
  "write_artifact fl out_md ls st =
     (if mkdir_fails fl then (Some OSError, st)
      else path_write_text (write_fault fl) out_md (join nl ls) st)"

definition write_markdown ::
  "faults \<Rightarrow> string \<Rightarrow> string \<Rightarrow> buckets \<Rightarrow> string option \<Rightarrow> (string \<times> string) list
   \<Rightarrow> (string \<times> string) list \<Rightarrow> store \<Rightarrow> error option \<times> store" where
  "write_markdown fl out_md root buckets readme_line py_edges js_edges st =
     (case write_markdown_lines root buckets readme_line py_edges js_edges of
        Inl e \<Rightarrow> (Some e, st)
      | Inr ls \<Rightarrow> write_artifact fl out_md ls st)"

text \<open>py/simple\_fs.py, \<^verbatim>\<open>write_text\<close>: the text goes to a temporary file beside the
  path, which then replaces the path in one rename.\<close>

definition write_text :: "faults \<Rightarrow> string \<Rightarrow> string \<Rightarrow> store \<Rightarrow> error option \<times> store" where
  "write_text fl path content st =
     (if mkdir_fails fl then (Some OSError, st)
      else
        (let tmp = path @ ''.tmp'' in
         case path_write_text (write_fault fl) tmp content st of
           (Some e, st1) \<Rightarrow> (Some e, st1)
         | (None, st1) \<Rightarrow>
             if replace_fails fl then (Some OSError, st1)
             else (None, (st1(tmp := None))(path := st1 tmp))))"

section \<open>gen\_docs.py: main, and gen\_bridge.py: run\_gen\<close>

text \<open>
  What the process sees and changes: its working directory, its arguments, the
  directories that exist and the files written, whether \<^verbatim>\<open>import gen_docs\<close> finds the
  module, the faults of the next write, and two answers of the system for a working
  directory and a path as the program wrote it: the resolved absolute path, and what a
  walk and the reads find below the path. Both can raise: \<^verbatim>\<open>Path.resolve\<close> on a NUL
  character in the path (\<^verbatim>\<open>ValueError\<close>) or on a loop of symbolic links
  (\<^verbatim>\<open>RuntimeError\<close>), the walk on a NUL character.
\<close>

record world =
  w_cwd :: string
  w_argv :: "string list"
  w_dirs :: "string set"
  w_files :: store
  w_importable :: bool
  w_faults :: faults
  w_resolve :: "string \<Rightarrow> string \<Rightarrow> error + string"
  w_scan :: "string \<Rightarrow> string \<Rightarrow> error + tree \<times> reader"

definition chdir :: "string \<Rightarrow> world \<Rightarrow> error option \<times> world" where
  "chdir p w = (if p \<in> w_dirs w then (None, w\<lparr>w_cwd := p\<rparr>) else (Some OSError, w))"

text \<open>
  The statements of \<^verbatim>\<open>main\<close> before \<^verbatim>\<open>write_markdown\<close>: the buckets, the README
  line and the edges, as in \<^verbatim>\<open>gen_docs_lines\<close>.
\<close>

definition main_scan ::
  "tree \<Rightarrow> reader
   \<Rightarrow> error + buckets \<times> string option \<times> (string \<times> string) list \<times> (string \<times> string) list" where
  "main_scan t rd =
     (let buckets = find_by_lang t in
      case read_readme rd of
        Inl e \<Rightarrow> Inl e
      | Inr readme_line \<Rightarrow>
          (case map_of buckets ''Python'' of
             None \<Rightarrow> Inl KeyError
           | Some py \<Rightarrow>
               (case map_of buckets ''JavaScript/TypeScript'' of
                  None \<Rightarrow> Inl KeyError
                | Some js \<Rightarrow>
                    Inr (buckets, readme_line,
                         (if py \<noteq> [] then py_import_edges rd py else []),
                         (if js \<noteq> [] then js_import_edges rd js else [])))))"






section \<open>Invariants of the extractors\<close>

text \<open>
  The edges an import extractor may hold while it runs, for the function that reads the
  key of a line: a pair of the slugs of two different-slugged files of the bucket, the
  first of which has a line whose key is the stem of the second.
\<close>

definition edge_from :: "(string \<Rightarrow> string option) \<Rightarrow> reader \<Rightarrow> path list \<Rightarrow> string \<times> string \<Rightarrow> bool" where
  "edge_from target rd files e =
     (fst e \<noteq> snd e \<and>
      (\<exists>p q body line. p \<in> set files \<and> q \<in> set files
         \<and> e = (slug_for_mermaid p, slug_for_mermaid q)
         \<and> rd p = Text body \<and> line \<in> set (splitlines body) \<and> target line = Some (stem q)))"

definition edges_ok :: "(string \<Rightarrow> string option) \<Rightarrow> reader \<Rightarrow> path list \<Rightarrow> (string \<times> string) set \<Rightarrow> bool" where
  "edges_ok target rd files E = (finite E \<and> (\<forall>e \<in> E. edge_from target rd files e))"

text \<open>
  The edges \<^verbatim>\<open>build_ccg\<close> may hold: a call edge joins two different function names
  found in the text of one file, for which the call test answered yes.
\<close>

definition call_edge :: "call_test \<Rightarrow> reader \<Rightarrow> path list \<Rightarrow> (string \<times> string) \<times> string \<times> string \<Rightarrow> bool" where
  "call_edge search rd ps e =
     (\<exists>p body caller callee. p \<in> set ps \<and> rd p = Text body
        \<and> caller \<in> set (findall_m def_re body) \<and> callee \<in> set (findall_m def_re body)
        \<and> caller \<noteq> callee \<and> search callee body = Inr True
        \<and> e = ((''func::'' @ caller, ''func::'' @ callee), ''calls'', join ''/'' p))"

definition calls_ok :: "call_test \<Rightarrow> reader \<Rightarrow> path list \<Rightarrow> ccg \<Rightarrow> bool" where
  "calls_ok search rd ps g = (\<forall>e \<in> set (g_edges g). call_edge search rd ps e)"

section \<open>Concrete inputs\<close>

text \<open>A tree with files of several languages, some of them below \<^verbatim>\<open>node_modules\<close>,
  \<^verbatim>\<open>.git\<close> and a hidden directory.\<close>

definition demo_tree :: tree where
  "demo_tree =
     Tree [''b.py'', ''a.PY'', ''notes.txt'']
       [(''node_modules'', Tree [''m.js''] [(''deep'', Tree [''n.py''] [])]),
        (''.git'', Tree [''hook.py''] []),
        (''src'', Tree [''u.ts'', ''Main.java'']
           [(''.hid'', Tree [''h.py''] []), (''lib'', Tree [''z.c''] [])])]"

text \<open>The two files of the example: \<^verbatim>\<open>a.py\<close> defines \<^verbatim>\<open>f\<close>, \<^verbatim>\<open>b.py\<close> defines
  \<^verbatim>\<open>g\<close>, which calls \<^verbatim>\<open>f\<close>.\<close>

definition ab_files :: "path list" where
  "ab_files = [[''a.py''], [''b.py'']]"

definition ab_reader :: reader where
  "ab_reader p = (if p = [''a.py''] then Text ''def f(): pass''
                  else if p = [''b.py''] then Text (''def g():'' @ nl @ ''    f()'')
                  else Missing)"

text \<open>One file that defines \<^verbatim>\<open>f\<close> and \<^verbatim>\<open>g\<close>, and a call test that finds calls of
  \<^verbatim>\<open>f\<close> only.\<close>

definition fg_reader :: reader where
  "fg_reader p = (if p = [''c.py''] then Text (''def f(): pass'' @ nl @ ''def g(): f()'')
                  else Missing)"

definition finds_f :: call_test where
  "finds_f callee body = Inr (callee = ''f'')"

text \<open>A Python file that imports its neighbour, and a JavaScript file that requires
  its neighbour.\<close>

definition import_reader :: reader where
  "import_reader p =
     (if p = [''a.py''] then Text (''import b'' @ nl @ ''import a'')
      else if p = [''b.py''] then Text ''x = 1''
      else if p = [''x.js''] then Text (''const z = require('' @ [CHR 0x27] @ ''./z'' @ [CHR 0x27] @ '')'')
      else if p = [''z.js''] then Text ''module.exports = 1''
      else Missing)"

text \<open>A root without any file, and a root whose second candidate holds blank lines only
  and whose third candidate starts with a heading.\<close>

definition no_files :: reader where
  "no_files p = Missing"

definition readme_reader :: reader where
  "readme_reader p =
     (if p = [''Readme.md''] then Text (''   '' @ nl @ nl)
      else if p = [''readme.md''] then Text (nl @ ''  ## My  Project  '' @ nl @ ''more'')
      else if p = [''README.rst''] then Text ''Other''
      else Missing)"

text \<open>Two listings of one directory tree, whose walks differ in order, and the lines of
  the artifact for the first of them.\<close>

definition perm_tree1 :: tree where
  "perm_tree1 = Tree [''a.py'', ''b.py''] [(''s'', Tree [''c.js''] []), (''t'', Tree [''d.py''] [])]"

definition perm_tree2 :: tree where
  "perm_tree2 = Tree [''b.py'', ''a.py''] [(''t'', Tree [''d.py''] []), (''s'', Tree [''c.js''] [])]"

definition perm_lines :: "string list" where
  "perm_lines =
     [title_line, root_line ''/one'', summary_heading,
      ''- Python: 3'', ''- JavaScript/TypeScript: 1'', ''- Java: 0'', ''- Go: 0'', ''- Rust: 0'',
      ''- C/C++: 0'', [],
      py_heading, mermaid_graph [(''a_py'', ''b_py'')] ''Python'',
      ''## Python files'', file_line [''a.py''], file_line [''b.py''], file_line [''t'', ''d.py''], [],
      ''## JavaScript/TypeScript files'', file_line [''s'', ''c.js''], [],
      ''## Java files'', ''_None_'', [], ''## Go files'', ''_None_'', [],
      ''## Rust files'', ''_None_'', [], ''## C/C++ files'', ''_None_'', []]"

text \<open>A tree without source files, the artifact of an empty root, and the rendering of
  a Python bucket of two files with one edge.\<close>

definition notes_tree :: tree where
  "notes_tree = Tree [''notes.txt''] [(''docs'', Tree [''guide.md''] [])]"

definition empty_root_lines :: "string list" where
  "empty_root_lines =
     [title_line, root_line ''/r'', summary_heading,
      ''- Python: 0'', ''- JavaScript/TypeScript: 0'', ''- Java: 0'', ''- Go: 0'', ''- Rust: 0'',
      ''- C/C++: 0'', [],
      ''## Python files'', ''_None_'', [], ''## JavaScript/TypeScript files'', ''_None_'', [],
      ''## Java files'', ''_None_'', [], ''## Go files'', ''_None_'', [],
      ''## Rust files'', ''_None_'', [], ''## C/C++ files'', ''_None_'', []]"

definition ab_buckets :: buckets where
  "ab_buckets = find_by_lang_files [[''a.py''], [''b.py'']]"

definition ab_lines :: "string list" where
  "ab_lines =
     [title_line, root_line ''/r'', summary_heading,
      ''- Python: 2'', ''- JavaScript/TypeScript: 0'', ''- Java: 0'', ''- Go: 0'', ''- Rust: 0'',
      ''- C/C++: 0'', [],
      py_heading, mermaid_graph [(''a_py'', ''b_py'')] ''Python'',
      ''## Python files'', file_line [''a.py''], file_line [''b.py''], [],
      ''## JavaScript/TypeScript files'', ''_None_'', [],
      ''## Java files'', ''_None_'', [], ''## Go files'', ''_None_'', [],
      ''## Rust files'', ''_None_'', [], ''## C/C++ files'', ''_None_'', []]"

text \<open>A write that fails after five characters, a write without fault, a store that
  holds a previous artifact, and a process in \<^verbatim>\<open>/home\<close> asked to document the empty
  directory \<^verbatim>\<open>/proj\<close>, which holds a previous artifact; its system refuses to resolve
  a path with a NUL character.\<close>

definition disk_full :: faults where
  "disk_full = \<lparr>mkdir_fails = False, write_fault = WriteFails 5, replace_fails = False\<rparr>"


definition old_store :: store where
  "old_store = [''outputs/docs.md'' \<mapsto> ''previous report'']"



section \<open>Facts about the walk and the buckets\<close>

lemma walk_keep:
  "p \<in> set (walk_files t) \<Longrightarrow> p \<noteq> [] \<and> (\<forall>d \<in> set (butlast p). keep_dir d)"
  "p \<in> set (walk_dirs ds) \<Longrightarrow> p \<noteq> [] \<and> (\<forall>d \<in> set (butlast p). keep_dir d)"
  by (induction t and ds arbitrary: p and p rule: walk_files_walk_dirs.induct)
     (auto split: if_splits)

lemma place_classify:
  "place tab p b = (case classify_in tab p of Some l \<Rightarrow> append_to l p b | None \<Rightarrow> b)"
  by (induction tab) (auto simp: classify_in_def)

lemma map_of_append_to:
  "map_of (append_to lang p b) k =
     (if k = lang then map_option (\<lambda>v. v @ [p]) (map_of b k) else map_of b k)"
  by (induction b) (auto simp: append_to_def)

lemma map_of_place:
  "map_of (place tab p b) k =
     (if classify_in tab p = Some k then map_option (\<lambda>v. v @ [p]) (map_of b k) else map_of b k)"
  by (cases "classify_in tab p") (simp_all add: place_classify map_of_append_to)

lemma map_of_fold_place:
  "map_of (foldl (\<lambda>b p. place tab p b) b0 ps) k =
     map_option (\<lambda>v. v @ filter (\<lambda>p. classify_in tab p = Some k) ps) (map_of b0 k)"
proof (induction ps arbitrary: b0)
  case Nil
  show ?case by (simp add: option.map_ident)
next
  case (Cons p ps)
  show ?case
    by (simp add: Cons.IH map_of_place option.map_comp o_def)
qed

lemma map_of_sorted_buckets:
  "map_of (map (\<lambda>(k, v). (k, sort v)) b) k = map_option sort (map_of b k)"
  by (induction b) auto

lemma map_of_const_nil:
  "map_of (map (\<lambda>(k, exts). (k, [])) tab) k = (if k \<in> fst ` set tab then Some [] else None)"
  by (induction tab) auto

lemma map_of_empty_buckets:
  "map_of empty_buckets k = (if k \<in> fst ` set LANG_EXTS then Some [] else None)"
  unfolding empty_buckets_def by (rule map_of_const_nil)

lemma bucket_char:
  "map_of (find_by_lang_files ps) k =
     (if k \<in> fst ` set LANG_EXTS then Some (sort (filter (\<lambda>p. classify p = Some k) ps)) else None)"
  by (simp add: find_by_lang_files_def map_of_sorted_buckets map_of_fold_place
      map_of_empty_buckets classify_def)

section \<open>Ignored directories\<close>

text \<open>
  Claim C6. Whatever the tree, a path that reaches any language bucket has no directory
  component that is in the ignore-set or that starts with a dot: every file below such a
  directory, at any depth and whatever the directory holds, is absent from every bucket.
\<close>

theorem ignored_dirs_excluded:
  assumes "map_of (find_by_lang t) lang = Some ps" and "p \<in> set ps"
  shows "\<forall>d \<in> set (butlast p). d \<notin> IGNORES \<and> \<not> startswith d ''.''"
proof -
  from assms have "p \<in> set (walk_files t)"
    by (auto simp: find_by_lang_def bucket_char split: if_splits)
  then show ?thesis using walk_keep(1) [of p t] by (simp add: keep_dir_def)
qed

theorem ignored_dirs_excluded_witness:
  "map_of (find_by_lang demo_tree) ''C/C++'' = Some [[''src'', ''lib'', ''z.c'']]
   \<and> [''src'', ''lib'', ''z.c''] \<in> set [[''src'', ''lib'', ''z.c'']]
   \<and> ''src'' \<notin> IGNORES \<and> \<not> startswith ''src'' ''.''
   \<and> ''lib'' \<notin> IGNORES \<and> \<not> startswith ''lib'' ''.''
   \<and> map_of (find_by_lang demo_tree) ''Python'' = Some [[''a.PY''], [''b.py'']]
   \<and> map_of (find_by_lang demo_tree) ''JavaScript/TypeScript'' = Some [[''src'', ''u.ts'']]"
proof -
  have c: "map_of (find_by_lang demo_tree) ''C/C++'' = Some [[''src'', ''lib'', ''z.c'']]"
    by code_simp
  have py: "map_of (find_by_lang demo_tree) ''Python'' = Some [[''a.PY''], [''b.py'']]"
    by code_simp
  have js: "map_of (find_by_lang demo_tree) ''JavaScript/TypeScript'' = Some [[''src'', ''u.ts'']]"
    by code_simp
  have m: "[''src'', ''lib'', ''z.c''] \<in> set [[''src'', ''lib'', ''z.c'']]" by simp
  from ignored_dirs_excluded [OF c m] c m py js show ?thesis by simp
qed

section \<open>Language classification\<close>

text \<open>
  Claim C7. The bucket of a language holds exactly the discovered files whose lower-cased
  suffix is first matched by that language's entry of the extension table, as often as the
  walk discovered them. So the lookup ignores the case of the suffix, two different
  buckets share no file, and a file that matches no entry is in no bucket.
\<close>

theorem find_by_lang_partition:
  assumes "map_of (find_by_lang t) lang = Some ps"
  shows "mset ps = filter_mset (\<lambda>p. classify p = Some lang) (mset (walk_files t))
         \<and> (\<forall>p \<in> set ps. \<forall>q. lower (suffix q) = lower (suffix p) \<longrightarrow> classify q = Some lang)
         \<and> (\<forall>lang' ps'. map_of (find_by_lang t) lang' = Some ps' \<and> lang' \<noteq> lang
                \<longrightarrow> set ps \<inter> set ps' = {})
         \<and> (\<forall>p. classify p = None \<longrightarrow> p \<notin> set ps)"
proof -
  from assms have ps: "ps = sort (filter (\<lambda>p. classify p = Some lang) (walk_files t))"
    by (auto simp: find_by_lang_def bucket_char split: if_splits)
  have a: "mset ps = filter_mset (\<lambda>p. classify p = Some lang) (mset (walk_files t))"
    by (simp add: ps)
  have b: "\<forall>p \<in> set ps. \<forall>q. lower (suffix q) = lower (suffix p) \<longrightarrow> classify q = Some lang"
    by (auto simp: ps classify_def classify_in_def)
  have c: "\<forall>lang' ps'. map_of (find_by_lang t) lang' = Some ps' \<and> lang' \<noteq> lang
             \<longrightarrow> set ps \<inter> set ps' = {}"
    by (auto simp: ps find_by_lang_def bucket_char split: if_splits)
  have d: "\<forall>p. classify p = None \<longrightarrow> p \<notin> set ps"
    by (auto simp: ps)
  from a b c d show ?thesis by blast
qed

theorem find_by_lang_partition_witness:
  "map_of (find_by_lang demo_tree) ''Python'' = Some [[''a.PY''], [''b.py'']]
   \<and> mset [[''a.PY''], [''b.py'']]
       = filter_mset (\<lambda>p. classify p = Some ''Python'') (mset (walk_files demo_tree))
   \<and> classify [''notes.txt''] = None \<and> [''notes.txt''] \<in> set (walk_files demo_tree)
   \<and> [''notes.txt''] \<notin> set [[''a.PY''], [''b.py'']]"
proof -
  have py: "map_of (find_by_lang demo_tree) ''Python'' = Some [[''a.PY''], [''b.py'']]"
    by code_simp
  have n: "classify [''notes.txt''] = None" by code_simp
  have w: "[''notes.txt''] \<in> set (walk_files demo_tree)" by code_simp
  from find_by_lang_partition [OF py] py n w show ?thesis by blast
qed

section \<open>Facts about the import extractors\<close>

lemma foldl_invariant:
  assumes "P a" and "\<And>a x. P a \<Longrightarrow> x \<in> set xs \<Longrightarrow> P (f a x)"
  shows "P (foldl f a xs)"
  using assms by (induction xs arbitrary: a) auto

lemma by_stem_Some: "by_stem files k = Some q \<Longrightarrow> q \<in> set files \<and> stem q = k"
  by (auto simp: by_stem_def dest!: map_of_SomeD)

lemma link_ok:
  assumes "edges_ok target rd files E" and "p \<in> set files" and "rd p = Text text"
    and "line \<in> set (splitlines text)" and "target line = Some key"
  shows "edges_ok target rd files (link (by_stem files) (slug_for_mermaid p) key E)"
proof (cases "by_stem files key")
  case None
  then show ?thesis using assms(1) by (simp add: link_def)
next
  case (Some q)
  then have q: "q \<in> set files" "stem q = key" using by_stem_Some by auto
  show ?thesis
  proof (cases "slug_for_mermaid p = slug_for_mermaid q")
    case True
    then show ?thesis using assms(1) Some by (simp add: link_def)
  next
    case False
    have "edge_from target rd files (slug_for_mermaid p, slug_for_mermaid q)"
      unfolding edge_from_def using False assms(2-5) q by auto
    then show ?thesis using assms(1) Some False by (simp add: link_def edges_ok_def)
  qed
qed

lemma py_file_ok:
  assumes "edges_ok py_import_target rd files E" and "p \<in> set files"
  shows "edges_ok py_import_target rd files (py_file rd (by_stem files) E p)"
proof (cases "rd p")
  case (Text body)
  have "edges_ok py_import_target rd files
          (foldl (py_line (by_stem files) (slug_for_mermaid p)) E (splitlines body))"
  proof (rule foldl_invariant [where P = "edges_ok py_import_target rd files"])
    show "edges_ok py_import_target rd files E" by (rule assms(1))
  next
    fix a line
    assume a: "edges_ok py_import_target rd files a" and l: "line \<in> set (splitlines body)"
    show "edges_ok py_import_target rd files (py_line (by_stem files) (slug_for_mermaid p) a line)"
    proof (cases "py_import_target line")
      case None
      then show ?thesis using a by (simp add: py_line_def)
    next
      case (Some key)
      then show ?thesis
        using link_ok [OF a assms(2) Text l Some] by (simp add: py_line_def)
    qed
  qed
  then show ?thesis using Text by (simp add: py_file_def)
qed (simp_all add: py_file_def assms(1))

lemma js_file_ok:
  assumes "edges_ok js_import_target rd files E" and "p \<in> set files"
  shows "edges_ok js_import_target rd files (js_file rd (by_stem files) E p)"
proof (cases "rd p")
  case (Text body)
  have "edges_ok js_import_target rd files
          (foldl (js_line (by_stem files) (slug_for_mermaid p)) E (splitlines body))"
  proof (rule foldl_invariant [where P = "edges_ok js_import_target rd files"])
    show "edges_ok js_import_target rd files E" by (rule assms(1))
  next
    fix a line
    assume a: "edges_ok js_import_target rd files a" and l: "line \<in> set (splitlines body)"
    show "edges_ok js_import_target rd files (js_line (by_stem files) (slug_for_mermaid p) a line)"
    proof (cases "js_import_target line")
      case None
      then show ?thesis using a by (simp add: js_line_def)
    next
      case (Some key)
      then show ?thesis
        using link_ok [OF a assms(2) Text l Some] by (simp add: js_line_def)
    qed
  qed
  then show ?thesis using Text by (simp add: js_file_def)
qed (simp_all add: js_file_def assms(1))

lemma py_import_edges_ok:
  "e \<in> set (py_import_edges rd files) \<Longrightarrow> edge_from py_import_target rd files e"
proof -
  have "edges_ok py_import_target rd files (foldl (py_file rd (by_stem files)) {} files)"
    by (rule foldl_invariant [where P = "edges_ok py_import_target rd files"])
       (simp_all add: edges_ok_def py_file_ok [unfolded edges_ok_def])
  then show "e \<in> set (py_import_edges rd files) \<Longrightarrow> edge_from py_import_target rd files e"
    by (simp add: py_import_edges_def edges_ok_def)
qed

lemma js_import_edges_ok:
  "e \<in> set (js_import_edges rd files) \<Longrightarrow> edge_from js_import_target rd files e"
proof -
  have "edges_ok js_import_target rd files (foldl (js_file rd (by_stem files)) {} files)"
    by (rule foldl_invariant [where P = "edges_ok js_import_target rd files"])
       (simp_all add: edges_ok_def js_file_ok [unfolded edges_ok_def])
  then show "e \<in> set (js_import_edges rd files) \<Longrightarrow> edge_from js_import_target rd files e"
    by (simp add: js_import_edges_def edges_ok_def)
qed

section \<open>Facts about build\_ccg\<close>

lemma set_update_subset: "set (AList.update k v al) \<subseteq> insert (k, v) (set al)"
  by (induction al) auto

lemma add_func_edges: "g_edges (fst (foldl (add_func file) gm fs)) = g_edges (fst gm)"
  by (induction fs arbitrary: gm) (auto simp: add_func_def split: prod.splits)

lemma add_class_edges: "g_edges (fst (foldl (add_class file) gm cs)) = g_edges (fst gm)"
  by (induction cs arbitrary: gm) (auto simp: add_class_def split: prod.splits)

lemma callee_loop_ok:
  assumes "callee_loop search (join ''/'' p) body caller cs g = Inr g'"
    and "calls_ok search rd ps g" and "p \<in> set ps" and "rd p = Text body"
    and "caller \<in> set (findall_m def_re body)" and "set cs \<subseteq> set (findall_m def_re body)"
  shows "calls_ok search rd ps g'"
  using assms
proof (induction cs arbitrary: g)
  case Nil
  then show ?case by simp
next
  case (Cons callee rest)
  show ?case
  proof (cases "caller = callee")
    case True
    with Cons show ?thesis by simp
  next
    case False
    with Cons.prems(1) obtain found where f: "search callee body = Inr found"
      and rec: "callee_loop search (join ''/'' p) body caller rest
                  (if found then add_call (join ''/'' p) caller callee g else g) = Inr g'"
      by (auto split: sum.splits)
    have "calls_ok search rd ps (if found then add_call (join ''/'' p) caller callee g else g)"
    proof (cases found)
      case True
      have "call_edge search rd ps
              ((''func::'' @ caller, ''func::'' @ callee), ''calls'', join ''/'' p)"
        unfolding call_edge_def using Cons.prems False f True by auto
      then show ?thesis
        using Cons.prems(2) True set_update_subset
        by (fastforce simp: calls_ok_def add_call_def)
    next
      case False
      then show ?thesis using Cons.prems(2) by simp
    qed
    from Cons.IH [OF rec this] Cons.prems show ?thesis by simp
  qed
qed

lemma caller_loop_ok:
  assumes "caller_loop search (join ''/'' p) body funcs cs g = Inr g'"
    and "calls_ok search rd ps g" and "p \<in> set ps" and "rd p = Text body"
    and "funcs = findall_m def_re body" and "set cs \<subseteq> set funcs"
  shows "calls_ok search rd ps g'"
  using assms
proof (induction cs arbitrary: g)
  case Nil
  then show ?case by simp
next
  case (Cons caller rest)
  from Cons.prems(1) obtain g1 where
    g1: "callee_loop search (join ''/'' p) body caller funcs g = Inr g1"
    and rec: "caller_loop search (join ''/'' p) body funcs rest g1 = Inr g'"
    by (auto split: sum.splits)
  have "calls_ok search rd ps g1"
    using callee_loop_ok [OF g1 Cons.prems(2,3,4)] Cons.prems(5,6) by simp
  from Cons.IH [OF rec this] Cons.prems show ?case by simp
qed

lemma ccg_file_ok:
  assumes "ccg_file search rd (g, m) p = Inr (g', m')" and "calls_ok search rd ps g" and "p \<in> set ps"
  shows "calls_ok search rd ps g'"
proof (cases "rd p")
  case (Text body)
  define gm2 where "gm2 = foldl (add_class (join ''/'' p))
       (foldl (add_func (join ''/'' p)) (g, m\<lparr>m_files_analyzed := m_files_analyzed m + 1\<rparr>)
          (findall_m def_re body)) (findall_m class_re body)"
  have e: "g_edges (fst gm2) = g_edges g"
    by (simp add: gm2_def add_class_edges add_func_edges)
  from assms(1) Text have
    "caller_loop search (join ''/'' p) body (findall_m def_re body) (findall_m def_re body) (fst gm2) = Inr g'"
    by (auto simp: ccg_file_def gm2_def Let_def split: prod.splits sum.splits)
  moreover have "calls_ok search rd ps (fst gm2)"
    using assms(2) e by (simp add: calls_ok_def)
  ultimately show ?thesis
    using caller_loop_ok [where cs = "findall_m def_re body"] assms(3) Text by blast
next
  case Missing
  with assms(1) show ?thesis by (simp add: ccg_file_def)
next
  case Unreadable
  with assms(1) show ?thesis by (simp add: ccg_file_def)
qed

lemma ccg_files_ok:
  assumes "ccg_files search rd gm qs = Inr gm'" and "calls_ok search rd ps (fst gm)"
    and "set qs \<subseteq> set ps"
  shows "calls_ok search rd ps (fst gm')"
  using assms
proof (induction qs arbitrary: gm)
  case Nil
  then show ?case by simp
next
  case (Cons q qs)
  from Cons.prems(1) obtain gm1 where
    s: "ccg_file search rd gm q = Inr gm1" and rec: "ccg_files search rd gm1 qs = Inr gm'"
    by (auto split: sum.splits)
  have "calls_ok search rd ps (fst gm1)"
    using ccg_file_ok [of search rd "fst gm" "snd gm" q "fst gm1" "snd gm1" ps] s Cons.prems
    by simp
  from Cons.IH [OF rec this] Cons.prems show ?case by simp
qed

lemma build_ccg_with_ok:
  assumes "build_ccg_with search rd ps = Inr (g, m)" and "e \<in> set (g_edges g)"
  shows "call_edge search rd ps e"
proof -
  have "calls_ok search rd ps (fst (g, m))"
    by (rule ccg_files_ok [OF assms(1) [unfolded build_ccg_with_def]]) (simp_all add: calls_ok_def)
  with assms(2) show ?thesis by (simp add: calls_ok_def)
qed

section \<open>Concrete runs of the extractors\<close>

lemma build_ccg_ab:
  "build_ccg ab_reader ab_files =
     Inr (\<lparr>g_nodes = [(''func::f'', ''func'', ''a.py''), (''func::g'', ''func'', ''b.py'')],
           g_edges = []\<rparr>,
          \<lparr>m_files_analyzed = 2, m_functions = 2, m_classes = 0\<rparr>)"
  by code_simp

lemma build_ccg_fg:
  "build_ccg_with finds_f fg_reader [[''c.py'']] =
     Inr (\<lparr>g_nodes = [(''func::f'', ''func'', ''c.py''), (''func::g'', ''func'', ''c.py'')],
           g_edges = [((''func::g'', ''func::f''), ''calls'', ''c.py'')]\<rparr>,
          \<lparr>m_files_analyzed = 1, m_functions = 2, m_classes = 0\<rparr>)"
  by code_simp

lemma py_edges_import:
  "py_import_edges import_reader [[''a.py''], [''b.py'']] = [(''a_py'', ''b_py'')]"
  by code_simp

lemma js_edges_import:
  "js_import_edges import_reader [[''x.js''], [''z.js'']] = [(''x_js'', ''z_js'')]"
  by code_simp

section \<open>The call graph of two files\<close>

text \<open>
  Claim C1, as the code has it. For the two files of the example \<^verbatim>\<open>build_ccg\<close> yields
  the two function nodes \<^verbatim>\<open>f\<close> and \<^verbatim>\<open>g\<close> and no edge: the call pass runs inside the
  loop over the files and pairs the functions of the current file only. Whatever the call
  test, every edge joins two different function names found in the text of one file.
\<close>

theorem build_ccg_same_file_pairs:
  "build_ccg ab_reader ab_files =
     Inr (\<lparr>g_nodes = [(''func::f'', ''func'', ''a.py''), (''func::g'', ''func'', ''b.py'')],
           g_edges = []\<rparr>,
          \<lparr>m_files_analyzed = 2, m_functions = 2, m_classes = 0\<rparr>)
   \<and> (\<forall>g m e. build_ccg_with search rd ps = Inr (g, m) \<and> e \<in> set (g_edges g) \<longrightarrow>
         (\<exists>p body caller callee. p \<in> set ps \<and> rd p = Text body
            \<and> caller \<in> set (findall_m def_re body) \<and> callee \<in> set (findall_m def_re body)
            \<and> caller \<noteq> callee \<and> search callee body = Inr True
            \<and> e = ((''func::'' @ caller, ''func::'' @ callee), ''calls'', join ''/'' p)))"
  using build_ccg_ab build_ccg_with_ok [of search rd ps] unfolding call_edge_def by blast

theorem build_ccg_same_file_pairs_witness:
  "build_ccg_with finds_f fg_reader [[''c.py'']] =
     Inr (\<lparr>g_nodes = [(''func::f'', ''func'', ''c.py''), (''func::g'', ''func'', ''c.py'')],
           g_edges = [((''func::g'', ''func::f''), ''calls'', ''c.py'')]\<rparr>,
          \<lparr>m_files_analyzed = 1, m_functions = 2, m_classes = 0\<rparr>)
   \<and> (\<exists>p body caller callee. p \<in> set [[''c.py'']] \<and> fg_reader p = Text body
            \<and> caller \<in> set (findall_m def_re body) \<and> callee \<in> set (findall_m def_re body)
            \<and> caller \<noteq> callee \<and> finds_f callee body = Inr True
            \<and> ((''func::g'', ''func::f''), ''calls'', ''c.py'')
                = ((''func::'' @ caller, ''func::'' @ callee), ''calls'', join ''/'' p))"
proof -
  note r = build_ccg_fg
  have "((''func::g'', ''func::f''), ''calls'', ''c.py'')
          \<in> set (g_edges \<lparr>g_nodes = [(''func::f'', ''func'', ''c.py''), (''func::g'', ''func'', ''c.py'')],
           g_edges = [((''func::g'', ''func::f''), ''calls'', ''c.py'')]\<rparr>)"
    by simp
  with r build_ccg_same_file_pairs [of finds_f fg_reader "[[''c.py'']]"] show ?thesis
    by blast
qed

text \<open>
  Claim C1 as stated fails: for the two files of the example the graph has no edge from
  \<^verbatim>\<open>g\<close> to \<^verbatim>\<open>f\<close>.
\<close>

theorem build_ccg_cross_file_counterexample:
  "build_ccg ab_reader ab_files =
     Inr (\<lparr>g_nodes = [(''func::f'', ''func'', ''a.py''), (''func::g'', ''func'', ''b.py'')],
           g_edges = []\<rparr>,
          \<lparr>m_files_analyzed = 2, m_functions = 2, m_classes = 0\<rparr>)
   \<and> build_ccg ab_reader ab_files \<noteq>
     Inr (\<lparr>g_nodes = [(''func::f'', ''func'', ''a.py''), (''func::g'', ''func'', ''b.py'')],
           g_edges = [((''func::g'', ''func::f''), ''calls'', ''b.py'')]\<rparr>,
          \<lparr>m_files_analyzed = 2, m_functions = 2, m_classes = 0\<rparr>)"
  using build_ccg_ab by simp

section \<open>Endpoints of the import edges\<close>

text \<open>
  Claim C8. Every edge of the Python and of the JavaScript extractor joins the slugs of two
  files of the bucket it was given, and it is there because a line of the first file has an
  import whose key (the head of the dotted module name, or the stem of the required path)
  is exactly the stem of the second file. No edge names a file outside the bucket.
\<close>

theorem import_edges_endpoints:
  "(\<forall>e \<in> set (py_import_edges rd files).
      \<exists>p q body line. p \<in> set files \<and> q \<in> set files
        \<and> e = (slug_for_mermaid p, slug_for_mermaid q)
        \<and> rd p = Text body \<and> line \<in> set (splitlines body)
        \<and> py_import_target line = Some (stem q))
   \<and> (\<forall>e \<in> set (js_import_edges rd files).
      \<exists>p q body line. p \<in> set files \<and> q \<in> set files
        \<and> e = (slug_for_mermaid p, slug_for_mermaid q)
        \<and> rd p = Text body \<and> line \<in> set (splitlines body)
        \<and> js_import_target line = Some (stem q))"
  using py_import_edges_ok [of _ rd files] js_import_edges_ok [of _ rd files]
  unfolding edge_from_def by blast

theorem import_edges_endpoints_witness:
  "py_import_edges import_reader [[''a.py''], [''b.py'']] = [(''a_py'', ''b_py'')]
   \<and> (\<exists>p q body line. p \<in> set [[''a.py''], [''b.py'']] \<and> q \<in> set [[''a.py''], [''b.py'']]
        \<and> (''a_py'', ''b_py'') = (slug_for_mermaid p, slug_for_mermaid q)
        \<and> import_reader p = Text body \<and> line \<in> set (splitlines body)
        \<and> py_import_target line = Some (stem q))
   \<and> js_import_edges import_reader [[''x.js''], [''z.js'']] = [(''x_js'', ''z_js'')]
   \<and> (\<exists>p q body line. p \<in> set [[''x.js''], [''z.js'']] \<and> q \<in> set [[''x.js''], [''z.js'']]
        \<and> (''x_js'', ''z_js'') = (slug_for_mermaid p, slug_for_mermaid q)
        \<and> import_reader p = Text body \<and> line \<in> set (splitlines body)
        \<and> js_import_target line = Some (stem q))"
proof -
  have py: "(''a_py'', ''b_py'') \<in> set (py_import_edges import_reader [[''a.py''], [''b.py'']])"
    by (simp add: py_edges_import)
  have js: "(''x_js'', ''z_js'') \<in> set (js_import_edges import_reader [[''x.js''], [''z.js'']])"
    by (simp add: js_edges_import)
  from import_edges_endpoints [of import_reader "[[''a.py''], [''b.py'']]"] py
    import_edges_endpoints [of import_reader "[[''x.js''], [''z.js'']]"] js
    py_edges_import js_edges_import
  show ?thesis by blast
qed

section \<open>No self-edges\<close>

text \<open>
  Claim C9. No extractor returns an edge from a node to itself: not the Python import
  extractor, not the JavaScript one, and not \<^verbatim>\<open>build_ccg\<close>, whatever its call test
  answers.
\<close>

theorem no_self_edges:
  "(\<forall>e \<in> set (py_import_edges rd files). fst e \<noteq> snd e)
   \<and> (\<forall>e \<in> set (js_import_edges rd files). fst e \<noteq> snd e)
   \<and> (\<forall>g m. build_ccg_with search rd' ps = Inr (g, m) \<longrightarrow>
         (\<forall>e \<in> set (g_edges g). fst (fst e) \<noteq> snd (fst e)))
   \<and> (\<forall>g m. build_ccg rd' ps = Inr (g, m) \<longrightarrow>
         (\<forall>e \<in> set (g_edges g). fst (fst e) \<noteq> snd (fst e)))"
proof -
  have a: "\<forall>e \<in> set (py_import_edges rd files). fst e \<noteq> snd e"
    using py_import_edges_ok [of _ rd files] by (auto simp: edge_from_def)
  have b: "\<forall>e \<in> set (js_import_edges rd files). fst e \<noteq> snd e"
    using js_import_edges_ok [of _ rd files] by (auto simp: edge_from_def)
  have c: "\<forall>g m. build_ccg_with s rd' ps = Inr (g, m) \<longrightarrow>
             (\<forall>e \<in> set (g_edges g). fst (fst e) \<noteq> snd (fst e))" for s
    using build_ccg_with_ok [of s rd' ps] by (fastforce simp: call_edge_def)
  from a b c [of search] c [of call_search] show ?thesis
    by (simp add: build_ccg_def)
qed

theorem no_self_edges_witness:
  "py_import_edges import_reader [[''a.py''], [''b.py'']] = [(''a_py'', ''b_py'')]
   \<and> ''a_py'' \<noteq> ''b_py''
   \<and> js_import_edges import_reader [[''x.js''], [''z.js'']] = [(''x_js'', ''z_js'')]
   \<and> ''x_js'' \<noteq> ''z_js''
   \<and> build_ccg_with finds_f fg_reader [[''c.py'']] =
     Inr (\<lparr>g_nodes = [(''func::f'', ''func'', ''c.py''), (''func::g'', ''func'', ''c.py'')],
           g_edges = [((''func::g'', ''func::f''), ''calls'', ''c.py'')]\<rparr>,
          \<lparr>m_files_analyzed = 1, m_functions = 2, m_classes = 0\<rparr>)
   \<and> ''func::g'' \<noteq> ''func::f''"
proof -
  note py = no_self_edges [of import_reader "[[''a.py''], [''b.py'']]" finds_f fg_reader "[[''c.py'']]"]
  note js = no_self_edges [of import_reader "[[''x.js''], [''z.js'']]" finds_f fg_reader "[[''c.py'']]"]
  have a: "fst (''a_py'', ''b_py'') \<noteq> snd (''a_py'', ''b_py'')"
    using py py_edges_import by simp
  have b: "fst (''x_js'', ''z_js'') \<noteq> snd (''x_js'', ''z_js'')"
    using js js_edges_import by simp
  have c: "fst (fst ((''func::g'', ''func::f''), ''calls'', ''c.py''))
             \<noteq> snd (fst ((''func::g'', ''func::f''), ''calls'', ''c.py''))"
    using py build_ccg_fg by simp
  from a b c show ?thesis
    using py_edges_import js_edges_import build_ccg_fg by simp
qed

section \<open>The README line\<close>

lemma rx_star_end: "rx m [Cls d Star] prev mark cap s = Some (cap, dropWhile d s)"
  by (induction s arbitrary: prev) auto

lemma rx_star_star:
  "rx m [Cls c Star, Cls d Star] prev mark cap s = Some (cap, dropWhile d (dropWhile c s))"
  by (induction s arbitrary: prev) (auto simp: rx_star_end)

lemma strip_heading_eq:
  "strip_heading s =
     (if take 1 s = ''#'' then dropWhile is_space (dropWhile (\<lambda>c. c = CHR ''#'') s) else s)"
proof (cases s)
  case Nil
  then show ?thesis by (simp add: strip_heading_def re_match_def hash_re_def)
next
  case (Cons x xs)
  then show ?thesis by (simp add: strip_heading_def re_match_def hash_re_def rx_star_star)
qed

lemma first_summary_find:
  "first_summary ls =
     (case find (\<lambda>l. strip l \<noteq> []) ls of None \<Rightarrow> None | Some l \<Rightarrow> Some (strip_heading (strip l)))"
  by (induction ls) (auto simp: Let_def)

lemma read_readme_in_find:
  assumes "\<forall>n \<in> set ns. rd [n] \<noteq> Unreadable"
  shows "read_readme_in ns rd =
           Inr (case find (\<lambda>n. summary_of (rd [n]) \<noteq> None) ns of
                  None \<Rightarrow> None | Some n \<Rightarrow> summary_of (rd [n]))"
  using assms by (induction ns) (auto simp: summary_of_def split: entry.splits option.splits)

lemma read_readme_in_cong:
  assumes "\<forall>n \<in> set ns. rd' [n] = rd [n]"
  shows "read_readme_in ns rd' = read_readme_in ns rd"
  using assms by (induction ns) (auto split: entry.splits option.splits)

lemma readme_reader_run: "read_readme readme_reader = Inr (Some ''My  Project'')"
  by code_simp

text \<open>
  Claim C4, as the code has it. \<^verbatim>\<open>read_readme\<close> looks at the candidate names directly
  under the root, in the order of the list, and returns the first non-blank line, stripped
  and with its leading hashes and the blanks after them removed, of the first candidate
  that has such a line; a candidate without one is passed over for the next. When no
  candidate has one the result is \<^verbatim>\<open>None\<close>, not a placeholder text, and the artifact
  gets no README section. The statement is about roots whose candidates can be read.
\<close>

theorem read_readme_first_nonblank:
  assumes "\<forall>n \<in> set README_FILES. rd [n] \<noteq> Unreadable"
  shows "read_readme rd =
           Inr (case find (\<lambda>n. summary_of (rd [n]) \<noteq> None) README_FILES of
                  None \<Rightarrow> None | Some n \<Rightarrow> summary_of (rd [n]))
         \<and> summary_of Missing = None
         \<and> (\<forall>body. summary_of (Text body) =
               (case find (\<lambda>l. strip l \<noteq> []) (splitlines body) of
                  None \<Rightarrow> None | Some l \<Rightarrow> Some (strip_heading (strip l))))
         \<and> (\<forall>s. strip_heading s =
               (if take 1 s = ''#'' then dropWhile is_space (dropWhile (\<lambda>c. c = CHR ''#'') s)
                else s))
         \<and> (\<forall>rd'. (\<forall>n \<in> set README_FILES. rd' [n] = rd [n]) \<longrightarrow> read_readme rd' = read_readme rd)
         \<and> readme_section None = []"
proof -
  have a: "read_readme rd =
             Inr (case find (\<lambda>n. summary_of (rd [n]) \<noteq> None) README_FILES of
                    None \<Rightarrow> None | Some n \<Rightarrow> summary_of (rd [n]))"
    unfolding read_readme_def by (rule read_readme_in_find [OF assms])
  have b: "summary_of Missing = None" by (simp add: summary_of_def)
  have c: "\<forall>body. summary_of (Text body) =
               (case find (\<lambda>l. strip l \<noteq> []) (splitlines body) of
                  None \<Rightarrow> None | Some l \<Rightarrow> Some (strip_heading (strip l)))"
    by (simp add: summary_of_def first_summary_find)
  have d: "\<forall>s. strip_heading s =
               (if take 1 s = ''#'' then dropWhile is_space (dropWhile (\<lambda>c. c = CHR ''#'') s)
                else s)"
    using strip_heading_eq by blast
  have e: "\<forall>rd'. (\<forall>n \<in> set README_FILES. rd' [n] = rd [n]) \<longrightarrow> read_readme rd' = read_readme rd"
    unfolding read_readme_def using read_readme_in_cong by blast
  have f: "readme_section None = []" by (simp add: readme_section_def)
  from a b c d e f show ?thesis by blast
qed

theorem read_readme_first_nonblank_witness:
  "readme_reader [''README.md''] \<noteq> Unreadable \<and> readme_reader [''Readme.md''] \<noteq> Unreadable
   \<and> readme_reader [''readme.md''] \<noteq> Unreadable \<and> readme_reader [''README''] \<noteq> Unreadable
   \<and> readme_reader [''README.rst''] \<noteq> Unreadable
   \<and> summary_of (readme_reader [''README.md'']) = None
   \<and> summary_of (readme_reader [''Readme.md'']) = None
   \<and> summary_of (readme_reader [''readme.md'']) = Some ''My  Project''
   \<and> read_readme readme_reader = Inr (Some ''My  Project'')"
proof -
  have h: "\<forall>n \<in> set README_FILES. readme_reader [n] \<noteq> Unreadable"
    by (simp add: README_FILES_def readme_reader_def)
  have s1: "summary_of (readme_reader [''README.md'']) = None" by code_simp
  have s2: "summary_of (readme_reader [''Readme.md'']) = None" by code_simp
  have s3: "summary_of (readme_reader [''readme.md'']) = Some ''My  Project''" by code_simp
  from read_readme_first_nonblank [OF h] s1 s2 s3 h show ?thesis
    by (simp add: README_FILES_def)
qed

text \<open>
  Claim C4 as stated fails: without any candidate the result is \<^verbatim>\<open>None\<close>, not the
  text \<^verbatim>\<open>no summary available.\<close>
\<close>

theorem read_readme_placeholder_counterexample:
  "read_readme no_files = Inr None \<and> read_readme no_files \<noteq> Inr (Some ''no summary available.'')"
  by (simp add: read_readme_def README_FILES_def no_files_def)

section \<open>The buckets in closed form\<close>

lemma place_map:
  "place tab p b = map (\<lambda>(k, v). (k, v @ (if classify_in tab p = Some k then [p] else []))) b"
  by (cases "classify_in tab p") (auto simp: place_classify append_to_def)

lemma fold_place_map:
  "foldl (\<lambda>b p. place tab p b) b0 ps =
     map (\<lambda>(k, v). (k, v @ filter (\<lambda>p. classify_in tab p = Some k) ps)) b0"
proof (induction ps arbitrary: b0)
  case Nil
  show ?case by (simp add: case_prod_beta)
next
  case (Cons p ps)
  have "foldl (\<lambda>b p. place tab p b) b0 (p # ps) = foldl (\<lambda>b p. place tab p b) (place tab p b0) ps"
    by simp
  also have "\<dots> = map (\<lambda>(k, v). (k, v @ filter (\<lambda>p. classify_in tab p = Some k) ps)) (place tab p b0)"
    by (rule Cons.IH)
  also have "\<dots> = map (\<lambda>(k, v). (k, v @ filter (\<lambda>p. classify_in tab p = Some k) (p # ps))) b0"
    by (simp add: place_map case_prod_beta)
  finally show ?case .
qed

lemma find_by_lang_files_eq:
  "find_by_lang_files ps =
     map (\<lambda>(k, exts). (k, sort (filter (\<lambda>p. classify p = Some k) ps))) LANG_EXTS"
  by (simp add: find_by_lang_files_def fold_place_map empty_buckets_def classify_def
      case_prod_beta o_def)

lemma sort_mset_cong: "mset xs = mset ys \<Longrightarrow> sort xs = sort ys"
  for xs :: "('a::linorder) list"
  by (metis properties_for_sort mset_sort sorted_sort)

lemma find_by_lang_files_perm:
  assumes "mset ps = mset qs"
  shows "find_by_lang_files ps = find_by_lang_files qs"
proof -
  have "sort (filter P ps) = sort (filter P qs)" for P
    by (rule sort_mset_cong) (simp add: assms)
  then show ?thesis by (simp add: find_by_lang_files_eq)
qed

section \<open>Determinism of the pipeline\<close>

lemma write_markdown_lines_root:
  "write_markdown_lines r2 b rl py js =
     map_sum id (\<lambda>ls. ls[1 := root_line r2]) (write_markdown_lines r1 b rl py js)"
  by (simp add: write_markdown_lines_def split: option.splits)

lemma gen_docs_lines_root:
  assumes "mset (walk_files t1) = mset (walk_files t2)"
  shows "gen_docs_lines r2 t2 rd =
           map_sum id (\<lambda>ls. ls[1 := root_line r2]) (gen_docs_lines r1 t1 rd)"
proof -
  have b: "find_by_lang t2 = find_by_lang t1"
    using find_by_lang_files_perm [OF assms] by (simp add: find_by_lang_def)
  show ?thesis
    unfolding gen_docs_lines_def Let_def b
    using write_markdown_lines_root [of r2 "find_by_lang t1" _ _ _ r1]
    by (auto split: sum.splits option.splits)
qed

lemma write_markdown_lines_second:
  "write_markdown_lines r b rl py js = Inr ls \<Longrightarrow> ls ! 1 = root_line r"
  by (auto simp: write_markdown_lines_def split: option.splits)

lemma gen_docs_lines_second:
  "gen_docs_lines r t rd = Inr ls \<Longrightarrow> ls ! 1 = root_line r"
  by (auto simp: gen_docs_lines_def Let_def split: sum.splits option.splits
      dest: write_markdown_lines_second)

lemma perm_walk: "mset (walk_files perm_tree1) = mset (walk_files perm_tree2)"
  by (simp add: perm_tree1_def perm_tree2_def)

lemma perm_run: "gen_docs_lines ''/one'' perm_tree1 import_reader = Inr perm_lines"
  by code_simp

text \<open>
  Claim C5. Two runs over the same files with the same contents give the same result,
  whatever the order in which the system lists the directories and whatever the path of
  the root: both fail with the same error, or both succeed and the lines of the two
  artifacts differ in the second line only, the one that names the scanned root. With
  the same root path the two artifacts are the same text.
\<close>

theorem gen_docs_deterministic:
  assumes "mset (walk_files t1) = mset (walk_files t2)"
  shows "(\<forall>e. gen_docs_lines r1 t1 rd = Inl e \<longrightarrow> gen_docs_lines r2 t2 rd = Inl e)
       \<and> (\<forall>ls. gen_docs_lines r1 t1 rd = Inr ls \<longrightarrow>
             ls ! 1 = root_line r1
             \<and> gen_docs_lines r2 t2 rd = Inr (ls[1 := root_line r2])
             \<and> gen_docs_text r2 t2 rd = Inr (join nl (ls[1 := root_line r2])))
       \<and> (r1 = r2 \<longrightarrow> gen_docs_text r2 t2 rd = gen_docs_text r1 t1 rd)"
proof -
  note eq = gen_docs_lines_root [OF assms, of r2 rd r1]
  have a: "\<forall>e. gen_docs_lines r1 t1 rd = Inl e \<longrightarrow> gen_docs_lines r2 t2 rd = Inl e"
    by (simp add: eq)
  have b: "\<forall>ls. gen_docs_lines r1 t1 rd = Inr ls \<longrightarrow>
             ls ! 1 = root_line r1
             \<and> gen_docs_lines r2 t2 rd = Inr (ls[1 := root_line r2])
             \<and> gen_docs_text r2 t2 rd = Inr (join nl (ls[1 := root_line r2]))"
    using gen_docs_lines_second [of r1 t1 rd] by (simp add: eq gen_docs_text_def)
  have c: "r1 = r2 \<longrightarrow> gen_docs_text r2 t2 rd = gen_docs_text r1 t1 rd"
  proof
    assume r: "r1 = r2"
    show "gen_docs_text r2 t2 rd = gen_docs_text r1 t1 rd"
    proof (cases "gen_docs_lines r1 t1 rd")
      case (Inl e)
      then show ?thesis by (simp add: eq gen_docs_text_def)
    next
      case (Inr ls)
      then have "ls[1 := root_line r2] = ls"
        using gen_docs_lines_second [OF Inr] r by (metis list_update_id)
      with Inr show ?thesis by (simp add: eq gen_docs_text_def)
    qed
  qed
  from a b c show ?thesis by blast
qed

theorem gen_docs_deterministic_witness:
  "mset (walk_files perm_tree1) = mset (walk_files perm_tree2)
   \<and> walk_files perm_tree1 \<noteq> walk_files perm_tree2
   \<and> gen_docs_lines ''/one'' perm_tree1 import_reader = Inr perm_lines
   \<and> perm_lines ! 1 = root_line ''/one''
   \<and> gen_docs_lines ''/two'' perm_tree2 import_reader = Inr (perm_lines[1 := root_line ''/two''])
   \<and> gen_docs_text ''/two'' perm_tree2 import_reader
       = Inr (join nl (perm_lines[1 := root_line ''/two'']))"
proof -
  have d: "walk_files perm_tree1 \<noteq> walk_files perm_tree2"
    by (simp add: perm_tree1_def perm_tree2_def)
  from gen_docs_deterministic [OF perm_walk, of "''/one''" import_reader "''/two''"]
    perm_run perm_walk d
  show ?thesis by simp
qed

section \<open>Sections of the artifact\<close>

lemma join_Cons: "join sep (x # zs) = x @ (if zs = [] then [] else sep @ join sep zs)"
  by (cases zs) auto

lemma mermaid_graph_head:
  assumes "edges \<noteq> []"
  shows "\<exists>rest. mermaid_graph edges title = ''```mermaid'' @ nl @ ''graph LR'' @ nl @ ''  '' @ rest"
proof -
  from assms obtain a b es where "edges = (a, b) # es" by (cases edges) auto
  then show ?thesis by (simp add: mermaid_graph_def join_Cons)
qed

lemma those_length: "those xs = Some ys \<Longrightarrow> length ys = length xs"
  by (induction xs arbitrary: ys) (auto split: option.splits)

lemma write_markdown_lines_form:
  assumes "write_markdown_lines root buckets readme_line py_edges js_edges = Inr ls"
  shows "\<exists>f1 f2 f3 f4 f5 f6.
           ls = [title_line, root_line root, summary_heading,
                 count_line (''Python'', f1), count_line (''JavaScript/TypeScript'', f2),
                 count_line (''Java'', f3), count_line (''Go'', f4), count_line (''Rust'', f5),
                 count_line (''C/C++'', f6), []]
                @ readme_section readme_line
                @ graph_section py_heading ''Python'' py_edges
                @ graph_section js_heading ''JS/TS'' js_edges
                @ files_section (''Python'', f1) @ files_section (''JavaScript/TypeScript'', f2)
                @ files_section (''Java'', f3) @ files_section (''Go'', f4)
                @ files_section (''Rust'', f5) @ files_section (''C/C++'', f6)"
proof -
  from assms obtain fl where fl: "those (map (map_of buckets) (map fst LANG_EXTS)) = Some fl"
    by (auto simp: write_markdown_lines_def split: option.splits)
  from those_length [OF fl] have "length fl = 6" by (simp add: LANG_EXTS_def)
  then obtain f1 f2 f3 f4 f5 f6 where f: "fl = [f1, f2, f3, f4, f5, f6]"
    by (auto simp: length_Suc_conv eval_nat_numeral)
  from assms fl have
    "ls = [title_line, root_line root, summary_heading,
                 count_line (''Python'', f1), count_line (''JavaScript/TypeScript'', f2),
                 count_line (''Java'', f3), count_line (''Go'', f4), count_line (''Rust'', f5),
                 count_line (''C/C++'', f6), []]
                @ readme_section readme_line
                @ graph_section py_heading ''Python'' py_edges
                @ graph_section js_heading ''JS/TS'' js_edges
                @ files_section (''Python'', f1) @ files_section (''JavaScript/TypeScript'', f2)
                @ files_section (''Java'', f3) @ files_section (''Go'', f4)
                @ files_section (''Rust'', f5) @ files_section (''C/C++'', f6)"
    unfolding write_markdown_lines_def f by (simp add: LANG_EXTS_def)
  then show ?thesis by blast
qed

lemma heading_not_files_section:
  "py_heading \<notin> set (files_section (lang, fs))" "js_heading \<notin> set (files_section (lang, fs))"
  if "lang \<in> set (map fst LANG_EXTS)"
  using that
  by (auto simp: files_section_def py_heading_def js_heading_def file_line_def LANG_EXTS_def nl_def)

lemma placeholder_not_files_section:
  "mermaid_graph [] title \<notin> set (files_section (lang, fs))"
  by (auto simp: files_section_def mermaid_graph_def file_line_def)

lemma heading_not_count_line:
  "py_heading \<noteq> count_line (lang, fs)" "js_heading \<noteq> count_line (lang, fs)"
  "mermaid_graph [] title \<noteq> count_line (lang, fs)"
  by (simp_all add: count_line_def py_heading_def js_heading_def mermaid_graph_def)

lemma heading_not_readme:
  "py_heading \<notin> set (readme_section r)" "js_heading \<notin> set (readme_section r)"
  "mermaid_graph [] title \<notin> set (readme_section r)"
  by (auto simp: readme_section_def py_heading_def js_heading_def mermaid_graph_def
      split: option.splits)

lemma graph_section_set:
  "py_heading \<in> set (graph_section py_heading t es) \<longleftrightarrow> es \<noteq> []"
  "js_heading \<in> set (graph_section js_heading t es) \<longleftrightarrow> es \<noteq> []"
  "py_heading \<notin> set (graph_section js_heading t es)"
  "js_heading \<notin> set (graph_section py_heading t es)"
  "mermaid_graph [] title \<notin> set (graph_section py_heading t es)"
  "mermaid_graph [] title \<notin> set (graph_section js_heading t es)"
  using mermaid_graph_head [of es t]
  by (auto simp: graph_section_def py_heading_def js_heading_def mermaid_graph_def [of "[]"] nl_def)

lemma heading_not_fixed:
  "py_heading \<noteq> title_line" "js_heading \<noteq> title_line"
  "py_heading \<noteq> root_line root" "js_heading \<noteq> root_line root"
  "py_heading \<noteq> summary_heading" "js_heading \<noteq> summary_heading"
  "py_heading \<noteq> []" "js_heading \<noteq> []"
  "mermaid_graph [] title \<noteq> title_line" "mermaid_graph [] title \<noteq> root_line root"
  "mermaid_graph [] title \<noteq> summary_heading" "mermaid_graph [] title \<noteq> []"
  by (simp_all add: py_heading_def js_heading_def title_line_def root_line_def mermaid_graph_def
      summary_heading_def)

lemma write_markdown_lines_graphs:
  assumes "write_markdown_lines root buckets readme_line py_edges js_edges = Inr ls"
  shows "(py_heading \<in> set ls \<longleftrightarrow> py_edges \<noteq> [])
       \<and> (js_heading \<in> set ls \<longleftrightarrow> js_edges \<noteq> [])
       \<and> (py_edges \<noteq> [] \<longrightarrow> mermaid_graph py_edges ''Python'' \<in> set ls)
       \<and> (js_edges \<noteq> [] \<longrightarrow> mermaid_graph js_edges ''JS/TS'' \<in> set ls)
       \<and> (\<forall>title. mermaid_graph [] title \<notin> set ls)"
proof -
  from write_markdown_lines_form [OF assms] obtain f1 f2 f3 f4 f5 f6 where
    ls: "ls = [title_line, root_line root, summary_heading,
                 count_line (''Python'', f1), count_line (''JavaScript/TypeScript'', f2),
                 count_line (''Java'', f3), count_line (''Go'', f4), count_line (''Rust'', f5),
                 count_line (''C/C++'', f6), []]
                @ readme_section readme_line
                @ graph_section py_heading ''Python'' py_edges
                @ graph_section js_heading ''JS/TS'' js_edges
                @ files_section (''Python'', f1) @ files_section (''JavaScript/TypeScript'', f2)
                @ files_section (''Java'', f3) @ files_section (''Go'', f4)
                @ files_section (''Rust'', f5) @ files_section (''C/C++'', f6)"
    by blast
  have langs: "''Python'' \<in> set (map fst LANG_EXTS)" "''JavaScript/TypeScript'' \<in> set (map fst LANG_EXTS)"
    "''Java'' \<in> set (map fst LANG_EXTS)" "''Go'' \<in> set (map fst LANG_EXTS)"
    "''Rust'' \<in> set (map fst LANG_EXTS)" "''C/C++'' \<in> set (map fst LANG_EXTS)"
    by (simp_all add: LANG_EXTS_def)
  note facts = heading_not_fixed heading_not_count_line heading_not_readme graph_section_set
    heading_not_files_section [OF langs(1)] heading_not_files_section [OF langs(2)]
    heading_not_files_section [OF langs(3)] heading_not_files_section [OF langs(4)]
    heading_not_files_section [OF langs(5)] heading_not_files_section [OF langs(6)]
    placeholder_not_files_section
  have a: "py_heading \<in> set ls \<longleftrightarrow> py_edges \<noteq> []"
    unfolding ls by (simp add: facts)
  have b: "js_heading \<in> set ls \<longleftrightarrow> js_edges \<noteq> []"
    unfolding ls by (simp add: facts)
  have c: "py_edges \<noteq> [] \<longrightarrow> mermaid_graph py_edges ''Python'' \<in> set ls"
    unfolding ls by (simp add: graph_section_def)
  have d: "js_edges \<noteq> [] \<longrightarrow> mermaid_graph js_edges ''JS/TS'' \<in> set ls"
    unfolding ls by (simp add: graph_section_def)
  have e: "\<forall>title. mermaid_graph [] title \<notin> set ls"
    unfolding ls by (simp add: facts)
  from a b c d e show ?thesis by blast
qed

lemma find_by_lang_unclassified:
  assumes "\<forall>p \<in> set (walk_files t). classify p = None"
  shows "find_by_lang t = map (\<lambda>(k, exts). (k, [])) LANG_EXTS"
proof -
  have "filter (\<lambda>p. classify p = Some k) (walk_files t) = []" for k
    using assms by (simp add: filter_empty_conv)
  then show ?thesis by (simp add: find_by_lang_def find_by_lang_files_eq)
qed

lemma str_nat_0: "str_nat 0 = ''0''"
  by code_simp

lemma gen_docs_lines_unclassified:
  assumes "\<forall>p \<in> set (walk_files t). classify p = None" and "read_readme rd = Inr r"
  shows "gen_docs_lines root t rd =
          Inr ([title_line, root_line root, summary_heading] @ map zero_line lang_names @ [[]]
               @ readme_section r @ concat (map none_section lang_names))"
  unfolding gen_docs_lines_def Let_def find_by_lang_unclassified [OF assms(1)] assms(2)
  by (simp add: LANG_EXTS_def write_markdown_lines_def lang_names_def zero_line_def
      none_section_def count_line_def files_section_def graph_section_def str_nat_0
      del: str_nat.simps)

lemma ab_lines_run:
  "write_markdown_lines ''/r'' ab_buckets None [(''a_py'', ''b_py'')] [] = Inr ab_lines"
  by code_simp

lemma notes_tree_walk: "walk_files notes_tree = [[''notes.txt''], [''docs'', ''guide.md'']]"
  by code_simp

lemma notes_unclassified: "classify [''notes.txt''] = None" "classify [''docs'', ''guide.md''] = None"
  by code_simp+

lemma no_files_readme: "read_readme no_files = Inr None"
  by code_simp

lemma empty_root_lines_eq:
  "[title_line, root_line ''/r'', summary_heading] @ map zero_line lang_names @ [[]]
     @ readme_section None @ concat (map none_section lang_names) = empty_root_lines"
  by code_simp

lemma empty_root_run: "gen_docs_lines ''/r'' (Tree [] []) no_files = Inr empty_root_lines"
  by code_simp

text \<open>
  Claim C3, as the code has it. The artifact has the diagram section of a family, its
  heading followed by the block that lists the edges, exactly when that family produced an
  edge; a family without edges gets no section, and the placeholder block of
  \<^verbatim>\<open>mermaid_graph\<close> for an empty list is never part of the artifact. For a root without
  source files, whose README (if any) can be read, the run succeeds and the artifact holds
  a count of zero and a file section marked \<^verbatim>\<open>_None_\<close> for each of the six languages,
  and no diagram section.
\<close>

theorem write_markdown_sections:
  "(\<forall>ls. write_markdown_lines root buckets readme_line py_edges js_edges = Inr ls \<longrightarrow>
       (py_heading \<in> set ls \<longleftrightarrow> py_edges \<noteq> [])
     \<and> (js_heading \<in> set ls \<longleftrightarrow> js_edges \<noteq> [])
     \<and> (py_edges \<noteq> [] \<longrightarrow> mermaid_graph py_edges ''Python'' \<in> set ls)
     \<and> (js_edges \<noteq> [] \<longrightarrow> mermaid_graph js_edges ''JS/TS'' \<in> set ls)
     \<and> (\<forall>title. mermaid_graph [] title \<notin> set ls))
   \<and> ((\<forall>p \<in> set (walk_files t). classify p = None) \<and> read_readme rd = Inr r \<longrightarrow>
        gen_docs_lines root t rd =
          Inr ([title_line, root_line root, summary_heading] @ map zero_line lang_names @ [[]]
               @ readme_section r @ concat (map none_section lang_names)))"
  using write_markdown_lines_graphs [of root buckets readme_line py_edges js_edges]
    gen_docs_lines_unclassified [of t rd r root]
  by blast

theorem write_markdown_sections_witness:
  "write_markdown_lines ''/r'' ab_buckets None [(''a_py'', ''b_py'')] [] = Inr ab_lines
   \<and> py_heading \<in> set ab_lines \<and> js_heading \<notin> set ab_lines
   \<and> mermaid_graph [(''a_py'', ''b_py'')] ''Python'' \<in> set ab_lines
   \<and> mermaid_graph [] ''JS/TS'' \<notin> set ab_lines
   \<and> walk_files notes_tree = [[''notes.txt''], [''docs'', ''guide.md'']]
   \<and> classify [''notes.txt''] = None \<and> classify [''docs'', ''guide.md''] = None
   \<and> read_readme no_files = Inr None
   \<and> gen_docs_lines ''/r'' notes_tree no_files = Inr empty_root_lines"
proof -
  note t = write_markdown_sections [of "''/r''" ab_buckets None "[(''a_py'', ''b_py'')]" "[]"
      notes_tree no_files None]
  have h: "\<forall>p \<in> set (walk_files notes_tree). classify p = None"
    by (simp add: notes_tree_walk notes_unclassified)
  from t ab_lines_run have a: "py_heading \<in> set ab_lines" "js_heading \<notin> set ab_lines"
    "mermaid_graph [(''a_py'', ''b_py'')] ''Python'' \<in> set ab_lines"
    "mermaid_graph [] ''JS/TS'' \<notin> set ab_lines"
    by simp_all
  from t h no_files_readme have
    "gen_docs_lines ''/r'' notes_tree no_files =
       Inr ([title_line, root_line ''/r'', summary_heading] @ map zero_line lang_names @ [[]]
            @ readme_section None @ concat (map none_section lang_names))"
    by blast
  then have "gen_docs_lines ''/r'' notes_tree no_files = Inr empty_root_lines"
    by (simp only: empty_root_lines_eq)
  with a ab_lines_run notes_tree_walk notes_unclassified no_files_readme show ?thesis
    by simp
qed

text \<open>
  Claim C3 as stated fails: the artifact of an empty root has no diagram section and
  nowhere the words of the placeholder.
\<close>

theorem no_edges_placeholder_counterexample:
  "gen_docs_text ''/r'' (Tree [] []) no_files = Inr (join nl empty_root_lines)
   \<and> py_heading \<notin> set empty_root_lines \<and> js_heading \<notin> set empty_root_lines
   \<and> mermaid_graph [] ''Python'' \<notin> set empty_root_lines
   \<and> mermaid_graph [] ''JS/TS'' \<notin> set empty_root_lines
   \<and> \<not> sublist ''No edges detected'' (join nl empty_root_lines)"
proof -
  have a: "gen_docs_text ''/r'' (Tree [] []) no_files = Inr (join nl empty_root_lines)"
    by (simp add: gen_docs_text_def empty_root_run)
  have b: "py_heading \<notin> set empty_root_lines" by code_simp
  have c: "js_heading \<notin> set empty_root_lines" by code_simp
  have d: "mermaid_graph [] ''Python'' \<notin> set empty_root_lines" by code_simp
  have e: "mermaid_graph [] ''JS/TS'' \<notin> set empty_root_lines" by code_simp
  have f: "\<not> sublist ''No edges detected'' (join nl empty_root_lines)" by code_simp
  from a b c d e f show ?thesis by blast
qed

section \<open>Writing the artifact\<close>

lemma write_artifact_partial:
  "write_artifact disk_full ''outputs/docs.md'' empty_root_lines old_store
     = (Some OSError, [''outputs/docs.md'' \<mapsto> ''# Cod''])"
proof -
  have "take 5 (join nl empty_root_lines) = ''# Cod''" by code_simp
  then show ?thesis
    by (simp add: write_artifact_def disk_full_def path_write_text_def old_store_def)
qed

lemma write_text_keeps_old:
  "snd (write_text disk_full ''outputs/docs.md'' (join nl empty_root_lines) old_store) ''outputs/docs.md''
     = Some ''previous report''"
  by (simp add: write_text_def disk_full_def path_write_text_def old_store_def Let_def)

lemma write_text_atomic:
  "snd (write_text fl path content st) path =
     (if fst (write_text fl path content st) = None then Some content else st path)"
  by (cases "write_fault fl")
     (auto simp: write_text_def path_write_text_def Let_def split: prod.splits)

lemma empty_buckets_lines:
  "write_markdown_lines ''/r'' (find_by_lang (Tree [] [])) None [] [] = Inr empty_root_lines"
  by code_simp

text \<open>
  Claim C2 asks for an atomic write of the report. \<^verbatim>\<open>write_markdown\<close> writes to the
  output path itself: when the write fails after five characters, the path that held the
  previous artifact holds those five characters. \<^verbatim>\<open>write_text\<close> of py/simple\_fs.py,
  given the same failure, leaves the previous artifact in place.
\<close>

theorem write_markdown_not_atomic:
  "old_store ''outputs/docs.md'' = Some ''previous report''
   \<and> write_markdown disk_full ''outputs/docs.md'' ''/r'' (find_by_lang (Tree [] [])) None [] []
         old_store
       = (Some OSError, [''outputs/docs.md'' \<mapsto> ''# Cod''])
   \<and> snd (write_text disk_full ''outputs/docs.md'' (join nl empty_root_lines) old_store)
         ''outputs/docs.md''
       = Some ''previous report''"
  using write_artifact_partial write_text_keeps_old
  by (simp add: write_markdown_def empty_buckets_lines old_store_def)

section \<open>The working directory across run\_gen\<close>

lemma gen_docs_lines_scan:
  "gen_docs_lines root t rd =
     (case main_scan t rd of
        Inl e \<Rightarrow> Inl e
      | Inr (buckets, readme_line, py_edges, js_edges) \<Rightarrow>
          write_markdown_lines root buckets readme_line py_edges js_edges)"
  by (simp add: gen_docs_lines_def main_scan_def Let_def split: sum.splits option.splits)


lemma chdir_dirs: "w_dirs (snd (chdir p w)) = w_dirs w"
  by (simp add: chdir_def)










end
